theory Spec2Isabelle
  imports Complex_Main
begin

section \<open>Data model (types of the client)\<close>

text \<open>
  The closed set of error reasons of \<^verbatim>\<open>WaitHumanError\<close>, and the text each one
  has when a template string interpolates it.
\<close>

datatype reason =
    Timeout
  | NetworkError
  | InvalidResponse
  | CreateFailed
  | PollFailed
  | UnexpectedAnswerType

fun reason_text :: "reason \<Rightarrow> string" where
  "reason_text Timeout = ''timeout''"
| "reason_text NetworkError = ''network_error''"
| "reason_text InvalidResponse = ''invalid_response''"
| "reason_text CreateFailed = ''create_failed''"
| "reason_text PollFailed = ''poll_failed''"
| "reason_text UnexpectedAnswerType = ''unexpected_answer_type''"

record WaitHumanError =
  reason :: reason
  description :: "string option"

text \<open>
  \<^verbatim>\<open>Result<T>\<close> is either \<^verbatim>\<open>{ data }\<close> or \<^verbatim>\<open>{ error }\<close>: a sum, with
  \<open>Inl\<close> for the error.
\<close>

type_synonym 'a Result = "WaitHumanError + 'a"

text \<open>
  A JavaScript number: a finite value, an infinity, or \<^verbatim>\<open>NaN\<close>. Finite values are
  taken as exact rationals (no rounding).
\<close>

datatype js_number = Finite rat | PosInfinity | NegInfinity | NaN

text \<open>\<^verbatim>\<open>x > y\<close> for a finite \<^verbatim>\<open>x\<close>: false when \<^verbatim>\<open>y\<close> is \<^verbatim>\<open>NaN\<close> or \<^verbatim>\<open>Infinity\<close>.\<close>

fun js_greater :: "rat \<Rightarrow> js_number \<Rightarrow> bool" where
  "js_greater x (Finite y) = (y < x)"
| "js_greater x PosInfinity = False"
| "js_greater x NegInfinity = True"
| "js_greater x NaN = False"

record AskOptions =
  timeoutSeconds :: "js_number option"

record WaitHumanConfig =
  cfg_apiKey :: "string option"
  cfg_endpoint :: "string option"

text \<open>
  Modelled from the spec: the generated schema types of \<^verbatim>\<open>./api/schema\<close>
  (\<^verbatim>\<open>QuestionMethod\<close>, \<^verbatim>\<open>AnswerFormat\<close>, \<^verbatim>\<open>ConfirmationQuestion\<close>, \<^verbatim>\<open>AnswerContent\<close>,
  \<^verbatim>\<open>ConfirmationAnswerWithDate\<close>), which the client only imports. Their shapes follow the
  data model of the specification and the fields the client reads or writes; further
  fields of an answer (its date) live in the extension of the records.
\<close>

datatype QuestionMethod = Push

datatype AnswerFormat =
    FreeTextFormat
  | OptionsFormat (options: "string list") (multiple: bool)

record ConfirmationQuestion =
  "method" :: QuestionMethod
  subject :: string
  body :: "string option"
  answer_format :: AnswerFormat

datatype AnswerContent =
    FreeText (text_of: string)
  | Options (selected_indexes: "int list")

fun content_type :: "AnswerContent \<Rightarrow> string" where
  "content_type (FreeText t) = ''free_text''"
| "content_type (Options idxs) = ''options''"

record Answer =
  answer_content :: AnswerContent

record ConfirmationAnswer =
  answer :: Answer

section \<open>The facade and its constructor\<close>

text \<open>
  A thrown \<^verbatim>\<open>Error\<close> is a value carrying its message; a function that can throw
  returns \<open>thrown + 'a\<close>.
\<close>

datatype thrown = Error (message: string)

record WaitHuman =
  apiKey :: string
  client_baseUrl :: string

definition DEFAULT_BACKEND_ENDPOINT :: string where
  "DEFAULT_BACKEND_ENDPOINT = ''https://api.waithuman.com''"

text \<open>\<^verbatim>\<open>s.endsWith("/")\<close> and \<^verbatim>\<open>s.slice(0, -1)\<close> on strings.\<close>

definition endsWith_slash :: "string \<Rightarrow> bool" where
  "endsWith_slash s = (case rev s of [] \<Rightarrow> False | c # _ \<Rightarrow> c = CHR ''/'')"

definition slice_0_minus1 :: "string \<Rightarrow> string" where
  "slice_0_minus1 s = take (length s - 1) s"

text \<open>
  The constructor. \<^verbatim>\<open>!config.apiKey\<close> holds for an undefined key and for the
  empty string; \<^verbatim>\<open>config.endpoint ?? DEFAULT\<close> replaces only an undefined endpoint.
\<close>

definition constructor :: "WaitHumanConfig \<Rightarrow> thrown + WaitHuman" where
  "constructor config =
     (case cfg_apiKey config of
        None \<Rightarrow> Inl (Error ''apiKey is mandatory'')
      | Some k \<Rightarrow>
          if k = [] then Inl (Error ''apiKey is mandatory'')
          else
            let endpoint = (case cfg_endpoint config of None \<Rightarrow> DEFAULT_BACKEND_ENDPOINT | Some e \<Rightarrow> e);
                endpoint = (if endsWith_slash endpoint then slice_0_minus1 endpoint else endpoint)
            in Inr \<lparr>apiKey = k, client_baseUrl = endpoint\<rparr>)"

section \<open>The transport, the clock and the observable trace\<close>

text \<open>
  The HTTP client is an external collaborator. A call either rejects (a transport
  exception) or resolves to the triple \<^verbatim>\<open>{ data, error, response }\<close> that the code
  destructures. Only truthiness of \<^verbatim>\<open>data\<close> and \<^verbatim>\<open>error\<close> is inspected: \<open>None\<close>
  stands for an undefined (or otherwise falsy) value. Of the \<^verbatim>\<open>response\<close> the code reads
  \<^verbatim>\<open>statusText\<close>; \<^verbatim>\<open>ok\<close> tells a success from a non-success response. The client puts
  the parsed body of a non-success response in \<^verbatim>\<open>error\<close>, so a non-success response
  with an empty body has an undefined \<^verbatim>\<open>error\<close>.

  Modelled from the spec: the bodies of the two successful responses,
  \<^verbatim>\<open>{ confirmation_request_id }\<close> and \<^verbatim>\<open>{ maybe_answer }\<close>, whose types are generated too.
  The body of a response is whatever the remote side sent, so a field of a body that
  is present may still be missing (or null): such a field is \<open>None\<close>.
\<close>

record Response =
  statusText :: string
  ok :: bool

datatype 'd FetchResult =
    Rejected
  | Resolved "'d option" "string option" Response  \<comment> \<open>\<^verbatim>\<open>data\<close>, \<^verbatim>\<open>error\<close>, \<^verbatim>\<open>response\<close>\<close>

record CreateBody =
  confirmation_request_id :: "string option"

record GetBody =
  maybe_answer :: "ConfirmationAnswer option"

text \<open>
  The environment of one run: the outcome and the duration of the creation call, the
  time between the reading of the start timestamp and the first reading in the loop,
  the outcome and the duration of the \<open>i\<close>-th poll call, and how late the timer of
  the \<open>i\<close>-th wait fires. Durations are in milliseconds and need not be whole.

  \<open>number_text\<close> is the text the JavaScript runtime gives a number interpolated in a
  template string (\<^verbatim>\<open>Number::toString\<close>): a parameter of the run, since it works on
  floating-point values (it prints small integers in plain decimal, and switches to
  exponent notation for large magnitudes).
\<close>

record env =
  create_result :: "CreateBody FetchResult"
  create_ms :: rat
  start_gap_ms :: rat
  poll_result :: "nat \<Rightarrow> GetBody FetchResult"
  poll_ms :: "nat \<Rightarrow> rat"
  timer_lag_ms :: "nat \<Rightarrow> rat"
  number_text :: "rat \<Rightarrow> string"

text \<open>
  What an observer of the network and of the timers sees: the requests issued (base
  URL, \<^verbatim>\<open>Authorization\<close> header, payload) and the timers set.
\<close>

datatype event =
    POST_create string string ConfirmationQuestion
  | GET_confirmation string string "string option" bool
  | SetTimeout nat

fun is_poll :: "event \<Rightarrow> bool" where
  "is_poll (GET_confirmation b a c l) = True"
| "is_poll (POST_create b a q) = False"
| "is_poll (SetTimeout d) = False"

text \<open>
  The state threaded through a run: the reading of \<^verbatim>\<open>performance.now()\<close> (in
  milliseconds), the number of poll calls made so far, and the trace. The clock
  advances by the durations the environment gives.
\<close>

record state =
  now :: rat
  polls :: nat
  trace :: "event list"

section \<open>The request-poll engine\<close>

text \<open>
  \<^verbatim>\<open>createConfirmation\<close>: one \<^verbatim>\<open>POST /confirmations/create\<close>; a rejection is caught
  and becomes \<open>network_error\<close>, \<^verbatim>\<open>error || !data\<close> becomes \<open>create_failed\<close>, and
  otherwise the result is \<^verbatim>\<open>data.confirmation_request_id\<close>.
\<close>

definition after_create :: "WaitHuman \<Rightarrow> env \<Rightarrow> ConfirmationQuestion \<Rightarrow> state \<Rightarrow> state" where
  "after_create this e question s =
     s\<lparr>now := now s + create_ms e,
       trace := trace s @ [POST_create (client_baseUrl this) (apiKey this) question]\<rparr>"

definition createConfirmation ::
  "WaitHuman \<Rightarrow> env \<Rightarrow> ConfirmationQuestion \<Rightarrow> state \<Rightarrow> (string option) Result \<times> state" where
  "createConfirmation this e question s =
     (let s' = after_create this e question s
      in case create_result e of
           Rejected \<Rightarrow> (Inl \<lparr>reason = NetworkError, description = None\<rparr>, s')
         | Resolved data error response \<Rightarrow>
             (case error of
                Some err \<Rightarrow>
                  (Inl \<lparr>reason = CreateFailed, description = Some (statusText response)\<rparr>, s')
              | None \<Rightarrow>
                  (case data of
                     None \<Rightarrow>
                       (Inl \<lparr>reason = CreateFailed, description = Some (statusText response)\<rparr>, s')
                   | Some d \<Rightarrow> (Inr (confirmation_request_id d), s'))))"

definition pollIntervalMs :: nat where
  "pollIntervalMs = 3000"

definition elapsedSeconds :: "rat \<Rightarrow> state \<Rightarrow> rat" where
  "elapsedSeconds startTimestampMs s = (now s - startTimestampMs) / 1000"

text \<open>\<^verbatim>\<open>timeoutSeconds != null && elapsedSeconds > timeoutSeconds\<close>\<close>

definition deadline_passed :: "js_number option \<Rightarrow> rat \<Rightarrow> bool" where
  "deadline_passed timeout elapsed =
     (case timeout of None \<Rightarrow> False | Some t \<Rightarrow> js_greater elapsed t)"

definition after_poll :: "WaitHuman \<Rightarrow> env \<Rightarrow> string option \<Rightarrow> state \<Rightarrow> state" where
  "after_poll this e confirmationId s =
     s\<lparr>now := now s + poll_ms e (polls s),
       polls := Suc (polls s),
       trace := trace s @ [GET_confirmation (client_baseUrl this) (apiKey this) confirmationId False]\<rparr>"

definition after_wait :: "env \<Rightarrow> state \<Rightarrow> state" where
  "after_wait e s =
     s\<lparr>now := now s + of_nat pollIntervalMs + timer_lag_ms e (polls s - 1),
       trace := trace s @ [SetTimeout pollIntervalMs]\<rparr>"

text \<open>
  The loop of \<^verbatim>\<open>pollForAnswer\<close>. It can run forever, so it takes fuel: one unit per
  iteration, \<open>None\<close> when the fuel is spent before the loop returns.
\<close>

fun poll_loop ::
  "nat \<Rightarrow> WaitHuman \<Rightarrow> env \<Rightarrow> string option \<Rightarrow> js_number option \<Rightarrow> rat \<Rightarrow> state
     \<Rightarrow> (ConfirmationAnswer Result \<times> state) option" where
  "poll_loop 0 this e confirmationId timeout startTimestampMs s = None"
| "poll_loop (Suc fuel) this e confirmationId timeout startTimestampMs s =
     (if deadline_passed timeout (elapsedSeconds startTimestampMs s)
      then Some (Inl \<lparr>reason = Timeout,
                       description =
                         Some (''elapsed seconds: '' @
                               number_text e (elapsedSeconds startTimestampMs s))\<rparr>, s)
      else
        let s1 = after_poll this e confirmationId s in
        case poll_result e (polls s) of
          Rejected \<Rightarrow> Some (Inl \<lparr>reason = NetworkError, description = None\<rparr>, s1)
        | Resolved data error response \<Rightarrow>
            (case error of
               Some err \<Rightarrow>
                 Some (Inl \<lparr>reason = PollFailed, description = Some (statusText response)\<rparr>, s1)
             | None \<Rightarrow>
                 (case (case data of None \<Rightarrow> None | Some d \<Rightarrow> maybe_answer d) of
                    Some a \<Rightarrow> Some (Inr a, s1)
                  | None \<Rightarrow>
                      poll_loop fuel this e confirmationId timeout startTimestampMs (after_wait e s1))))"

text \<open>
  \<^verbatim>\<open>pollForAnswer\<close>: the start timestamp is read, then the loop is entered; its first
  reading of the clock comes \<open>start_gap_ms\<close> later.
\<close>

definition loop_entry :: "env \<Rightarrow> state \<Rightarrow> state" where
  "loop_entry e s = s\<lparr>now := now s + start_gap_ms e\<rparr>"

definition pollForAnswer ::
  "nat \<Rightarrow> WaitHuman \<Rightarrow> env \<Rightarrow> string option \<Rightarrow> js_number option \<Rightarrow> state
     \<Rightarrow> (ConfirmationAnswer Result \<times> state) option" where
  "pollForAnswer fuel this e confirmationId timeout s =
     poll_loop fuel this e confirmationId timeout (now s) (loop_entry e s)"

text \<open>
  \<^verbatim>\<open>ask\<close>: the create phase, then the poll phase unless creation gave an error;
  \<^verbatim>\<open>options?.timeoutSeconds\<close> is undefined when there are no options.
\<close>

definition ask ::
  "nat \<Rightarrow> WaitHuman \<Rightarrow> env \<Rightarrow> ConfirmationQuestion \<Rightarrow> AskOptions option \<Rightarrow> state
     \<Rightarrow> (ConfirmationAnswer Result \<times> state) option" where
  "ask fuel this e question opts s =
     (case createConfirmation this e question s of
        (Inl err, s') \<Rightarrow> Some (Inl err, s')
      | (Inr confirmationId, s') \<Rightarrow>
          pollForAnswer fuel this e confirmationId
            (case opts of None \<Rightarrow> None | Some opt \<Rightarrow> timeoutSeconds opt) s')"

section \<open>The typed convenience operations\<close>

definition engine_error_message :: "WaitHumanError \<Rightarrow> string" where
  "engine_error_message err =
     ''WaitHuman Error: '' @ reason_text (reason err) @ '' '' @
       (case description err of None \<Rightarrow> [] | Some d \<Rightarrow> d)"

definition askFreeText ::
  "nat \<Rightarrow> WaitHuman \<Rightarrow> env \<Rightarrow> string \<Rightarrow> string option \<Rightarrow> AskOptions option \<Rightarrow> state
     \<Rightarrow> ((thrown + string) \<times> state) option" where
  "askFreeText fuel this e subj bdy opts s =
     (let question = \<lparr>method = Push, subject = subj, body = bdy, answer_format = FreeTextFormat\<rparr>
      in case ask fuel this e question opts s of
           None \<Rightarrow> None
         | Some (Inl err, s') \<Rightarrow> Some (Inl (Error (engine_error_message err)), s')
         | Some (Inr a, s') \<Rightarrow>
             (case answer_content (answer a) of
                FreeText t \<Rightarrow> Some (Inr t, s')
              | Options idxs \<Rightarrow>
                  Some (Inl (Error (''Unexpected answer type: '' @ content_type (Options idxs) @
                                    ''. Expected '' @ [CHR 0x27] @ ''free_text'' @ [CHR 0x27] @ ''.'')), s')))"

text \<open>\<^verbatim>\<open>xs[i]\<close> on an array: undefined outside the array.\<close>

definition index :: "'a list \<Rightarrow> int \<Rightarrow> 'a option" where
  "index xs i = (if 0 \<le> i \<and> i < int (length xs) then Some (xs ! nat i) else None)"

definition invalid_index_message :: "env \<Rightarrow> int option \<Rightarrow> string" where
  "invalid_index_message e selectedIndex =
     ''Invalid selected index received: '' @
       (case selectedIndex of None \<Rightarrow> ''undefined'' | Some i \<Rightarrow> number_text e (of_int i))"

definition askMultipleChoice ::
  "nat \<Rightarrow> WaitHuman \<Rightarrow> env \<Rightarrow> string \<Rightarrow> string list \<Rightarrow> string option \<Rightarrow> AskOptions option \<Rightarrow> state
     \<Rightarrow> ((thrown + string) \<times> state) option" where
  "askMultipleChoice fuel this e subj choices bdy opts s =
     (let question = \<lparr>method = Push, subject = subj, body = bdy,
                      answer_format = OptionsFormat choices False\<rparr>
      in case ask fuel this e question opts s of
           None \<Rightarrow> None
         | Some (Inl err, s') \<Rightarrow> Some (Inl (Error (engine_error_message err)), s')
         | Some (Inr a, s') \<Rightarrow>
             (case answer_content (answer a) of
                FreeText t \<Rightarrow>
                  Some (Inl (Error (''Unexpected answer type: '' @ content_type (FreeText t) @
                                    ''. Expected '' @ [CHR 0x27] @ ''options'' @ [CHR 0x27] @ ''.'')), s')
              | Options idxs \<Rightarrow>
                  (let selectedIndex = index idxs 0 in
                   case selectedIndex of
                     None \<Rightarrow> Some (Inl (Error (invalid_index_message e selectedIndex)), s')
                   | Some i \<Rightarrow>
                       if i < 0 \<or> i \<ge> int (length choices)
                       then Some (Inl (Error (invalid_index_message e selectedIndex)), s')
                       else
                         (case index choices i of
                            None \<Rightarrow> Some (Inl (Error (invalid_index_message e selectedIndex)), s')
                          | Some choice \<Rightarrow> Some (Inr choice, s')))))"

section \<open>Notions used to state the properties\<close>

text \<open>
  A poll response that neither fails nor carries an answer: no truthy \<^verbatim>\<open>error\<close>,
  and either no body or a body whose \<^verbatim>\<open>maybe_answer\<close> is null.
\<close>

fun pending :: "GetBody FetchResult \<Rightarrow> bool" where
  "pending Rejected = False"
| "pending (Resolved data error response) =
     (case error of
        Some err \<Rightarrow> False
      | None \<Rightarrow> (case data of None \<Rightarrow> True | Some d \<Rightarrow> maybe_answer d = None))"

text \<open>
  The state at the top of the \<open>k\<close>-th iteration of the loop, counted from a state
  \<open>s\<close> at the top of an iteration, when the polls in between found no answer.
\<close>

fun loop_top :: "WaitHuman \<Rightarrow> env \<Rightarrow> string option \<Rightarrow> nat \<Rightarrow> state \<Rightarrow> state" where
  "loop_top this e confirmationId 0 s = s"
| "loop_top this e confirmationId (Suc k) s =
     loop_top this e confirmationId k (after_wait e (after_poll this e confirmationId s))"

section \<open>Sample values\<close>

definition demo_client :: WaitHuman where
  "demo_client = \<lparr>apiKey = ''key'', client_baseUrl = ''https://api.waithuman.com''\<rparr>"

definition demo_question :: ConfirmationQuestion where
  "demo_question =
     \<lparr>method = Push, subject = ''Send invoice?'', body = None, answer_format = FreeTextFormat\<rparr>"

definition idle :: state where
  "idle = \<lparr>now = 0, polls = 0, trace = []\<rparr>"

definition ok_response :: Response where
  "ok_response = \<lparr>statusText = ''OK'', ok = True\<rparr>"

definition created :: "string \<Rightarrow> CreateBody FetchResult" where
  "created cid = Resolved (Some \<lparr>confirmation_request_id = Some cid\<rparr>) None ok_response"

definition no_answer :: "GetBody FetchResult" where
  "no_answer = Resolved (Some \<lparr>maybe_answer = None\<rparr>) None ok_response"

definition answered :: "AnswerContent \<Rightarrow> GetBody FetchResult" where
  "answered c =
     Resolved (Some \<lparr>maybe_answer = Some \<lparr>answer = \<lparr>answer_content = c\<rparr>\<rparr>\<rparr>) None ok_response"

text \<open>
  A rendering of numbers for the sample runs: the text of \<open>x\<close> for an \<open>x\<close> with at
  most three decimals, in plain decimal notation without trailing zeros (what
  JavaScript prints for such numbers of moderate size).
\<close>

definition digit :: "nat \<Rightarrow> char" where
  "digit n = ''0123456789'' ! (n mod 10)"

fun show_nat :: "nat \<Rightarrow> string" where
  "show_nat n = (if n < 10 then [digit n] else show_nat (n div 10) @ [digit n])"

declare show_nat.simps [simp del]

definition show_thousandths :: "nat \<Rightarrow> string" where
  "show_thousandths n =
     (let f = n mod 1000;
          ds = rev (dropWhile (\<lambda>c. c = CHR ''0'') (rev [digit (f div 100), digit (f div 10), digit f]))
      in show_nat (n div 1000) @ (if f = 0 then [] else ''.'' @ ds))"

definition decimal_text :: "rat \<Rightarrow> string" where
  "decimal_text x =
     (if x < 0 then ''-'' @ show_thousandths (nat \<lfloor>- x * 1000\<rfloor>)
      else show_thousandths (nat \<lfloor>x * 1000\<rfloor>))"

text \<open>
  An environment where creation succeeds after 5 ms with the identifier \<open>id1\<close>, the
  loop takes its first reading of the clock 1 ms after the start timestamp, no answer
  ever arrives, polls take no time and timers fire on time.
\<close>

definition demo_env :: env where
  "demo_env =
     \<lparr>create_result = created ''id1'', create_ms = 5, start_gap_ms = 1,
      poll_result = (\<lambda>i. no_answer), poll_ms = (\<lambda>i. 0), timer_lag_ms = (\<lambda>i. 0),
      number_text = decimal_text\<rparr>"

section \<open>Helper facts\<close>

lemma endsWith_slash_iff: "endsWith_slash s \<longleftrightarrow> (\<exists>p. s = p @ ''/'')"
proof
  assume "endsWith_slash s"
  then obtain r where "rev s = CHR ''/'' # r"
    by (auto simp: endsWith_slash_def split: list.splits)
  then have "s = rev r @ ''/''"
    by (simp add: rev_swap)
  then show "\<exists>p. s = p @ ''/''" ..
next
  assume "\<exists>p. s = p @ ''/''"
  then show "endsWith_slash s"
    by (auto simp: endsWith_slash_def)
qed

lemma slice_0_minus1_snoc: "slice_0_minus1 (p @ [c]) = p"
  by (simp add: slice_0_minus1_def)

lemma constructor_ok:
  assumes "k \<noteq> []"
  shows "constructor \<lparr>cfg_apiKey = Some k, cfg_endpoint = Some e\<rparr> =
           Inr \<lparr>apiKey = k, client_baseUrl = (if endsWith_slash e then slice_0_minus1 e else e)\<rparr>"
  using assms by (simp add: constructor_def)

subsection \<open>One iteration of the poll loop\<close>

lemma poll_loop_deadline:
  "deadline_passed timeout (elapsedSeconds start s) \<Longrightarrow>
   poll_loop (Suc fuel) this e cid timeout start s =
     Some (Inl \<lparr>reason = Timeout,
                 description = Some (''elapsed seconds: '' @ number_text e (elapsedSeconds start s))\<rparr>, s)"
  by simp

lemma poll_loop_rejected:
  "\<not> deadline_passed timeout (elapsedSeconds start s) \<Longrightarrow> poll_result e (polls s) = Rejected \<Longrightarrow>
   poll_loop (Suc fuel) this e cid timeout start s =
     Some (Inl \<lparr>reason = NetworkError, description = None\<rparr>, after_poll this e cid s)"
  by simp

lemma poll_loop_non_success:
  "\<not> deadline_passed timeout (elapsedSeconds start s) \<Longrightarrow>
   poll_result e (polls s) = Resolved data (Some err) resp \<Longrightarrow>
   poll_loop (Suc fuel) this e cid timeout start s =
     Some (Inl \<lparr>reason = PollFailed, description = Some (statusText resp)\<rparr>, after_poll this e cid s)"
  by simp

lemma poll_loop_answer:
  "\<not> deadline_passed timeout (elapsedSeconds start s) \<Longrightarrow>
   poll_result e (polls s) = Resolved (Some d) None resp \<Longrightarrow> maybe_answer d = Some a \<Longrightarrow>
   poll_loop (Suc fuel) this e cid timeout start s = Some (Inr a, after_poll this e cid s)"
  by simp

lemma poll_loop_pending:
  "\<not> deadline_passed timeout (elapsedSeconds start s) \<Longrightarrow> pending (poll_result e (polls s)) \<Longrightarrow>
   poll_loop (Suc fuel) this e cid timeout start s =
     poll_loop fuel this e cid timeout start (after_wait e (after_poll this e cid s))"
  by (cases "poll_result e (polls s)") (auto split: option.splits)

lemma polls_loop_top: "polls (loop_top this e cid k s) = polls s + k"
  by (induction k arbitrary: s) (simp_all add: after_wait_def after_poll_def)

lemma poll_loop_skip:
  "(\<And>j. j < k \<Longrightarrow> pending (poll_result e (polls s + j)) \<and>
        \<not> deadline_passed timeout (elapsedSeconds start (loop_top this e cid j s))) \<Longrightarrow>
   poll_loop (k + fuel) this e cid timeout start s =
     poll_loop fuel this e cid timeout start (loop_top this e cid k s)"
proof (induction k arbitrary: s)
  case 0
  show ?case by simp
next
  case (Suc k)
  let ?s' = "after_wait e (after_poll this e cid s)"
  from Suc.prems [of 0] have first: "pending (poll_result e (polls s))"
    "\<not> deadline_passed timeout (elapsedSeconds start s)"
    by simp_all
  have "poll_loop (Suc k + fuel) this e cid timeout start s =
        poll_loop (k + fuel) this e cid timeout start ?s'"
    using poll_loop_pending [OF first(2) first(1)] by simp
  also have "\<dots> = poll_loop fuel this e cid timeout start (loop_top this e cid k ?s')"
  proof (rule Suc.IH)
    fix j assume "j < k"
    then have "Suc j < Suc k" by simp
    from Suc.prems [OF this]
    show "pending (poll_result e (polls ?s' + j)) \<and>
        \<not> deadline_passed timeout (elapsedSeconds start (loop_top this e cid j ?s'))"
      by (simp add: after_wait_def after_poll_def)
  qed
  finally show ?case by simp
qed

lemma poll_loop_reasons:
  "poll_loop fuel this e cid timeout start s = Some (Inl err, s') \<Longrightarrow>
   reason err \<in> {NetworkError, PollFailed, Timeout}"
proof (induction fuel arbitrary: s)
  case 0
  then show ?case by simp
next
  case (Suc fuel)
  then show ?case
    by (cases "poll_result e (polls s)") (auto simp: Let_def split: if_splits option.splits)
qed

lemma deadline_never_passed:
  "timeout = None \<or> timeout = Some NaN \<or> timeout = Some PosInfinity \<Longrightarrow>
   \<not> deadline_passed timeout x"
  by (auto simp: deadline_passed_def)

lemma poll_loop_no_timeout:
  assumes "\<And>x. \<not> deadline_passed timeout x"
  shows "poll_loop fuel this e cid timeout start s = Some (Inl err, s') \<Longrightarrow> reason err \<noteq> Timeout"
proof (induction fuel arbitrary: s)
  case 0
  then show ?case by simp
next
  case (Suc fuel)
  then show ?case
    using assms
    by (cases "poll_result e (polls s)") (auto simp: Let_def split: if_splits option.splits)
qed

subsection \<open>The create phase\<close>

lemma createConfirmation_state:
  "snd (createConfirmation this e question s) = after_create this e question s"
  by (simp add: createConfirmation_def Let_def split: FetchResult.splits option.splits)

lemma ask_create_error:
  "createConfirmation this e question s = (Inl err, s') \<Longrightarrow>
   ask fuel this e question opts s = Some (Inl err, s')"
  by (simp add: ask_def)

lemma ask_created:
  "createConfirmation this e question s = (Inr cid, s') \<Longrightarrow>
   ask fuel this e question opts s =
     pollForAnswer fuel this e cid (case opts of None \<Rightarrow> None | Some opt \<Rightarrow> timeoutSeconds opt) s'"
  by (simp add: ask_def)

lemma loop_entry_simps:
  "now (loop_entry e s) = now s + start_gap_ms e"
  "polls (loop_entry e s) = polls s"
  "trace (loop_entry e s) = trace s"
  by (simp_all add: loop_entry_def)

subsection \<open>Evaluation on the sample values\<close>

lemmas engine_defs = ask_def createConfirmation_def after_create_def pollForAnswer_def
  loop_entry_def after_poll_def after_wait_def pollIntervalMs_def deadline_passed_def
  elapsedSeconds_def Let_def

lemmas demo_defs = demo_env_def demo_client_def idle_def created_def no_answer_def answered_def
  ok_response_def

lemmas text_defs = decimal_text_def show_thousandths_def show_nat.simps digit_def

lemma decimal_text_samples:
  "decimal_text 2 = ''2''"
  "decimal_text 5 = ''5''"
  "decimal_text (- 1) = ''-1''"
  "decimal_text (1 / 1000) = ''0.001''"
  "decimal_text (6001 / 1000) = ''6.001''"
  "decimal_text (13001 / 1000) = ''13.001''"
  by (simp_all add: text_defs)

lemma after_poll_simps:
  "now (after_poll this e cid s) = now s + poll_ms e (polls s)"
  "polls (after_poll this e cid s) = Suc (polls s)"
  "trace (after_poll this e cid s) =
     trace s @ [GET_confirmation (client_baseUrl this) (apiKey this) cid False]"
  by (simp_all add: after_poll_def)

lemma after_wait_simps:
  "now (after_wait e s) = now s + 3000 + timer_lag_ms e (polls s - 1)"
  "polls (after_wait e s) = polls s"
  "trace (after_wait e s) = trace s @ [SetTimeout 3000]"
  by (simp_all add: after_wait_def pollIntervalMs_def)

lemma loop_top_Suc:
  "loop_top this e cid (Suc k) s = after_wait e (after_poll this e cid (loop_top this e cid k s))"
  by (induction k arbitrary: s) simp_all

lemma now_loop_top_Suc:
  "now (loop_top this e cid (Suc k) s) =
     now (loop_top this e cid k s) + poll_ms e (polls s + k) + 3000 + timer_lag_ms e (polls s + k)"
  by (simp only: loop_top_Suc) (simp add: after_wait_simps after_poll_simps polls_loop_top)

lemma trace_loop_top:
  "trace (loop_top this e cid k s) =
     trace s @ concat (replicate k
       [GET_confirmation (client_baseUrl this) (apiKey this) cid False, SetTimeout 3000])"
  by (induction k arbitrary: s) (simp_all add: after_wait_simps after_poll_simps)

lemma demo_created:
  "createConfirmation demo_client (demo_env\<lparr>poll_result := r\<rparr>) q idle =
     (Inr (Some ''id1''),
      \<lparr>now = 5, polls = 0, trace = [POST_create ''https://api.waithuman.com'' ''key'' q]\<rparr>)"
  by (simp add: createConfirmation_def after_create_def Let_def demo_env_def created_def
      demo_client_def idle_def)

subsection \<open>The deadline\<close>

lemma poll_loop_trace_extends:
  "poll_loop fuel this e cid timeout start s = Some (r, s') \<Longrightarrow> \<exists>tr. trace s' = trace s @ tr"
proof (induction fuel arbitrary: s)
  case 0
  then show ?case by simp
next
  case (Suc fuel)
  show ?case
  proof (cases "deadline_passed timeout (elapsedSeconds start s)")
    case True
    with Suc.prems show ?thesis by simp
  next
    case False
    show ?thesis
    proof (cases "pending (poll_result e (polls s))")
      case True
      from Suc.prems poll_loop_pending [OF False True, of fuel this cid]
      have "poll_loop fuel this e cid timeout start (after_wait e (after_poll this e cid s)) = Some (r, s')"
        by simp
      from Suc.IH [OF this] show ?thesis
        by (auto simp: after_wait_simps after_poll_simps)
    next
      case notp: False
      with False Suc.prems have "s' = after_poll this e cid s"
        by (cases "poll_result e (polls s)") (auto simp: Let_def split: option.splits)
      then show ?thesis
        by (simp add: after_poll_simps)
    qed
  qed
qed

lemma poll_loop_dispatches:
  assumes "\<not> deadline_passed timeout (elapsedSeconds start s)"
    and "poll_loop (Suc fuel) this e cid timeout start s = Some (r, s')"
  shows "\<exists>tr. trace s' =
      trace s @ GET_confirmation (client_baseUrl this) (apiKey this) cid False # tr"
proof (cases "pending (poll_result e (polls s))")
  case True
  from assms(2) poll_loop_pending [OF assms(1) True, of fuel this cid]
  have "poll_loop fuel this e cid timeout start (after_wait e (after_poll this e cid s)) = Some (r, s')"
    by simp
  from poll_loop_trace_extends [OF this] show ?thesis
    by (auto simp: after_wait_simps after_poll_simps)
next
  case False
  with assms have "s' = after_poll this e cid s"
    by (cases "poll_result e (polls s)") (auto simp: Let_def split: option.splits)
  then show ?thesis
    by (simp add: after_poll_simps)
qed

lemma poll_loop_times_out:
  assumes pend: "\<forall>i. pending (poll_result e i)"
    and dur: "\<forall>i. 0 \<le> poll_ms e i \<and> 0 \<le> timer_lag_ms e i \<and> poll_ms e i + timer_lag_ms e i \<le> d"
  shows "now s - start \<le> T * 1000 + 3000 + d \<Longrightarrow>
     T * 1000 < now s - start + 3000 * rat_of_nat n \<Longrightarrow>
     \<exists>s'. poll_loop (Suc n) this e cid (Some (Finite T)) start s =
            Some (Inl \<lparr>reason = Timeout,
                        description =
                          Some (''elapsed seconds: '' @ number_text e (elapsedSeconds start s'))\<rparr>, s') \<and>
          T < elapsedSeconds start s' \<and> elapsedSeconds start s' \<le> T + 3 + d / 1000"
proof (induction n arbitrary: s)
  case 0
  then have "deadline_passed (Some (Finite T)) (elapsedSeconds start s)"
    by (simp add: deadline_passed_def elapsedSeconds_def)
  moreover from 0 have "T < elapsedSeconds start s"
    "elapsedSeconds start s \<le> T + 3 + d / 1000"
    by (simp_all add: elapsedSeconds_def field_simps)
  ultimately show ?case
    by (intro exI [of _ s]) simp
next
  case (Suc n)
  show ?case
  proof (cases "deadline_passed (Some (Finite T)) (elapsedSeconds start s)")
    case True
    then have "T < elapsedSeconds start s"
      by (simp add: deadline_passed_def)
    moreover from Suc.prems(1) have "elapsedSeconds start s \<le> T + 3 + d / 1000"
      by (simp add: elapsedSeconds_def field_simps)
    ultimately show ?thesis
      using True by (intro exI [of _ s]) simp
  next
    case False
    let ?s' = "after_wait e (after_poll this e cid s)"
    from False have le: "now s - start \<le> T * 1000"
      by (simp add: deadline_passed_def elapsedSeconds_def field_simps)
    have now': "now ?s' = now s + poll_ms e (polls s) + 3000 + timer_lag_ms e (polls s)"
      by (simp add: after_wait_simps after_poll_simps)
    from dur have step: "0 \<le> poll_ms e (polls s)" "0 \<le> timer_lag_ms e (polls s)"
      "poll_ms e (polls s) + timer_lag_ms e (polls s) \<le> d"
      by simp_all
    from le step(3) have a: "now ?s' - start \<le> T * 1000 + 3000 + d"
      by (simp add: now')
    from step(1,2) have "now s - start + 3000 \<le> now ?s' - start"
      by (simp add: now')
    with Suc.prems(2) have b: "T * 1000 < now ?s' - start + 3000 * rat_of_nat n"
      by (simp add: algebra_simps)
    from pend have "pending (poll_result e (polls s))"
      by blast
    with False have "poll_loop (Suc (Suc n)) this e cid (Some (Finite T)) start s =
        poll_loop (Suc n) this e cid (Some (Finite T)) start ?s'"
      by (rule poll_loop_pending)
    with Suc.IH [OF a b] show ?thesis
      by simp
  qed
qed

subsection \<open>The convenience operations\<close>

lemma ask_trace_starts_with_create:
  assumes "ask fuel this e question opts s = Some (r, s')"
  shows "\<exists>tr. trace s' = trace s @ POST_create (client_baseUrl this) (apiKey this) question # tr"
proof (cases "createConfirmation this e question s")
  case (Pair cr s1)
  with createConfirmation_state [of this e question s]
  have s1: "s1 = after_create this e question s"
    by simp
  show ?thesis
  proof (cases cr)
    case (Inl err)
    with Pair assms have "s' = s1"
      by (simp add: ask_create_error)
    with s1 show ?thesis
      by (simp add: after_create_def)
  next
    case (Inr cid)
    with Pair assms have "poll_loop fuel this e cid
        (case opts of None \<Rightarrow> None | Some opt \<Rightarrow> timeoutSeconds opt) (now s1) (loop_entry e s1) =
          Some (r, s')"
      by (simp add: ask_created pollForAnswer_def)
    from poll_loop_trace_extends [OF this] s1 show ?thesis
      by (auto simp: after_create_def loop_entry_simps)
  qed
qed

lemma index_head: "index (i # others) 0 = Some i"
  by (simp add: index_def)

lemma index_empty: "index [] 0 = None"
  by (simp add: index_def)

lemma index_in_range: "0 \<le> i \<Longrightarrow> i < int (length xs) \<Longrightarrow> index xs i = Some (xs ! nat i)"
  by (simp add: index_def)

lemma demo_answer_run:
  "ask 1 demo_client (demo_env\<lparr>poll_result := (\<lambda>i. answered c)\<rparr>) q None idle =
     Some (Inr \<lparr>answer = \<lparr>answer_content = c\<rparr>\<rparr>,
           \<lparr>now = 6, polls = 1,
            trace = [POST_create ''https://api.waithuman.com'' ''key'' q,
                     GET_confirmation ''https://api.waithuman.com'' ''key'' (Some ''id1'') False]\<rparr>)"
  by (simp add: engine_defs demo_defs)

section \<open>Claims about the constructor\<close>

text \<open>
  C9 (counterexample). A configuration whose key is present, but the empty string, makes
  the constructor throw: failure does not need an absent key.
\<close>

theorem constructor_empty_key_throws:
  "cfg_apiKey \<lparr>cfg_apiKey = Some [], cfg_endpoint = None\<rparr> \<noteq> None \<and>
   constructor \<lparr>cfg_apiKey = Some [], cfg_endpoint = None\<rparr> = Inl (Error ''apiKey is mandatory'')"
  by (simp add: constructor_def)

text \<open>
  C9 (amended). Construction throws if and only if the key is absent or the empty
  string. When it succeeds, the client keeps the key, and its base URL comes from the
  configured endpoint, or from \<open>https://api.waithuman.com\<close> when none is given: that
  string without its final character when it ends in a slash, and unchanged otherwise.
\<close>

theorem constructor_spec:
  "(isl (constructor config) \<longleftrightarrow> cfg_apiKey config = None \<or> cfg_apiKey config = Some []) \<and>
   (\<forall>w. constructor config = Inr w \<longrightarrow>
      cfg_apiKey config = Some (apiKey w) \<and>
      (\<forall>p. (case cfg_endpoint config of None \<Rightarrow> ''https://api.waithuman.com'' | Some ep \<Rightarrow> ep) = p @ ''/''
            \<longrightarrow> client_baseUrl w = p) \<and>
      ((\<nexists>p. (case cfg_endpoint config of None \<Rightarrow> ''https://api.waithuman.com'' | Some ep \<Rightarrow> ep) = p @ ''/'')
            \<longrightarrow> client_baseUrl w = (case cfg_endpoint config of None \<Rightarrow> ''https://api.waithuman.com'' | Some ep \<Rightarrow> ep)))"
proof -
  let ?ep = "case cfg_endpoint config of None \<Rightarrow> ''https://api.waithuman.com'' | Some ep \<Rightarrow> ep"
  have thrown: "isl (constructor config) \<longleftrightarrow> cfg_apiKey config = None \<or> cfg_apiKey config = Some []"
    by (simp add: constructor_def Let_def split: option.splits)
  have built: "cfg_apiKey config = Some (apiKey w) \<and>
      (\<forall>p. ?ep = p @ ''/'' \<longrightarrow> client_baseUrl w = p) \<and>
      ((\<nexists>p. ?ep = p @ ''/'') \<longrightarrow> client_baseUrl w = ?ep)"
    if ok: "constructor config = Inr w" for w
  proof -
    from ok obtain k where k: "cfg_apiKey config = Some k" "k \<noteq> []"
      by (auto simp: constructor_def split: option.splits if_splits)
    have "constructor config =
        Inr \<lparr>apiKey = k, client_baseUrl = (if endsWith_slash ?ep then slice_0_minus1 ?ep else ?ep)\<rparr>"
      using k by (cases "cfg_endpoint config")
        (simp_all add: constructor_def Let_def DEFAULT_BACKEND_ENDPOINT_def)
    with ok have w: "w = \<lparr>apiKey = k,
        client_baseUrl = (if endsWith_slash ?ep then slice_0_minus1 ?ep else ?ep)\<rparr>"
      by simp
    have "client_baseUrl w = p" if "?ep = p @ ''/''" for p
    proof -
      from that have "endsWith_slash ?ep"
        by (simp only: endsWith_slash_iff) blast
      with w that show ?thesis
        using slice_0_minus1_snoc [of p "CHR ''/''"] by simp
    qed
    moreover have "client_baseUrl w = ?ep" if "\<nexists>p. ?ep = p @ ''/''"
      using that w by (simp add: endsWith_slash_iff)
    ultimately show ?thesis
      using k w by simp
  qed
  from thrown built show ?thesis
    by blast
qed

theorem constructor_spec_witness:
  "constructor \<lparr>cfg_apiKey = Some ''key'', cfg_endpoint = None\<rparr>
     = Inr \<lparr>apiKey = ''key'', client_baseUrl = ''https://api.waithuman.com''\<rparr> \<and>
   constructor \<lparr>cfg_apiKey = Some ''key'', cfg_endpoint = Some ''http://localhost:8080/''\<rparr>
     = Inr \<lparr>apiKey = ''key'', client_baseUrl = ''http://localhost:8080''\<rparr> \<and>
   isl (constructor \<lparr>cfg_apiKey = None, cfg_endpoint = Some ''http://localhost:8080/''\<rparr>)"
proof -
  let ?c1 = "\<lparr>cfg_apiKey = Some ''key'', cfg_endpoint = None\<rparr>"
  let ?c2 = "\<lparr>cfg_apiKey = Some ''key'', cfg_endpoint = Some ''http://localhost:8080/''\<rparr>"
  let ?c3 = "\<lparr>cfg_apiKey = None, cfg_endpoint = Some ''http://localhost:8080/''\<rparr>"
  note t1 = constructor_spec [of ?c1]
  note t2 = constructor_spec [of ?c2]
  note t3 = constructor_spec [of ?c3]
  from t1 [THEN conjunct1] have "\<not> isl (constructor ?c1)"
    by simp
  then obtain w1 where w1: "constructor ?c1 = Inr w1"
    by (cases "constructor ?c1") auto
  have no_slash: "\<nexists>p. ''https://api.waithuman.com'' = p @ ''/''"
    by (simp add: append_eq_Cons_conv)
  from t1 [THEN conjunct2, rule_format, OF w1]
  have "cfg_apiKey ?c1 = Some (apiKey w1)"
    and "(\<nexists>p. ''https://api.waithuman.com'' = p @ ''/'') \<longrightarrow>
           client_baseUrl w1 = ''https://api.waithuman.com''"
    by simp_all
  with no_slash have "apiKey w1 = ''key''" "client_baseUrl w1 = ''https://api.waithuman.com''"
    by simp_all
  with w1 have r1: "constructor ?c1 =
      Inr \<lparr>apiKey = ''key'', client_baseUrl = ''https://api.waithuman.com''\<rparr>"
    by simp
  from t2 [THEN conjunct1] have "\<not> isl (constructor ?c2)"
    by simp
  then obtain w2 where w2: "constructor ?c2 = Inr w2"
    by (cases "constructor ?c2") auto
  from t2 [THEN conjunct2, rule_format, OF w2]
  have "cfg_apiKey ?c2 = Some (apiKey w2)"
    and "\<forall>p. ''http://localhost:8080/'' = p @ ''/'' \<longrightarrow> client_baseUrl w2 = p"
    by simp_all
  then have "apiKey w2 = ''key''" "client_baseUrl w2 = ''http://localhost:8080''"
    by simp_all
  with w2 have r2: "constructor ?c2 =
      Inr \<lparr>apiKey = ''key'', client_baseUrl = ''http://localhost:8080''\<rparr>"
    by simp
  from t3 [THEN conjunct1] have r3: "isl (constructor ?c3)"
    by simp
  from r1 r2 r3 show ?thesis
    by simp
qed

text \<open>
  C10. The constructor strips at most one trailing slash. For a key that is not empty
  and an endpoint \<open>p @ ''/''\<close>, the base URL of the client is exactly \<open>p\<close>: only the
  final character is removed, so that an endpoint \<open>p @ ''//''\<close> gives \<open>p @ ''/''\<close>,
  which still ends in a slash. An endpoint that does not end in a slash is the base
  URL, unchanged.
\<close>

theorem constructor_strips_one_slash:
  assumes "k \<noteq> []"
  shows "(\<forall>p. ep = p @ ''/'' \<longrightarrow>
            constructor \<lparr>cfg_apiKey = Some k, cfg_endpoint = Some ep\<rparr>
              = Inr \<lparr>apiKey = k, client_baseUrl = p\<rparr>) \<and>
         (\<forall>p. ep = p @ ''//'' \<longrightarrow>
            constructor \<lparr>cfg_apiKey = Some k, cfg_endpoint = Some ep\<rparr>
              = Inr \<lparr>apiKey = k, client_baseUrl = p @ ''/''\<rparr>) \<and>
         ((\<nexists>p. ep = p @ ''/'') \<longrightarrow>
            constructor \<lparr>cfg_apiKey = Some k, cfg_endpoint = Some ep\<rparr>
              = Inr \<lparr>apiKey = k, client_baseUrl = ep\<rparr>)"
proof (intro conjI allI impI)
  fix p assume ep: "ep = p @ ''/''"
  then have "endsWith_slash ep"
    by (simp only: endsWith_slash_iff) blast
  with ep assms show "constructor \<lparr>cfg_apiKey = Some k, cfg_endpoint = Some ep\<rparr>
              = Inr \<lparr>apiKey = k, client_baseUrl = p\<rparr>"
    using slice_0_minus1_snoc [of p "CHR ''/''"] by (simp add: constructor_ok)
next
  fix p assume ep: "ep = p @ ''//''"
  then have "ep = (p @ ''/'') @ ''/''"
    by simp
  then have "endsWith_slash ep"
    by (simp only: endsWith_slash_iff) blast
  with ep assms show "constructor \<lparr>cfg_apiKey = Some k, cfg_endpoint = Some ep\<rparr>
              = Inr \<lparr>apiKey = k, client_baseUrl = p @ ''/''\<rparr>"
    using slice_0_minus1_snoc [of "p @ ''/''" "CHR ''/''"] by (simp add: constructor_ok)
next
  assume "\<nexists>p. ep = p @ ''/''"
  then have "\<not> endsWith_slash ep"
    by (simp add: endsWith_slash_iff)
  with assms show "constructor \<lparr>cfg_apiKey = Some k, cfg_endpoint = Some ep\<rparr>
              = Inr \<lparr>apiKey = k, client_baseUrl = ep\<rparr>"
    by (simp add: constructor_ok)
qed

theorem constructor_strips_one_slash_witness:
  "constructor \<lparr>cfg_apiKey = Some ''key'', cfg_endpoint = Some ''https://h//''\<rparr>
     = Inr \<lparr>apiKey = ''key'', client_baseUrl = ''https://h/''\<rparr> \<and>
   constructor \<lparr>cfg_apiKey = Some ''key'', cfg_endpoint = Some ''https://h/''\<rparr>
     = Inr \<lparr>apiKey = ''key'', client_baseUrl = ''https://h''\<rparr> \<and>
   constructor \<lparr>cfg_apiKey = Some ''key'', cfg_endpoint = Some ''https://h''\<rparr>
     = Inr \<lparr>apiKey = ''key'', client_baseUrl = ''https://h''\<rparr>"
proof -
  have k: "''key'' \<noteq> []"
    by simp
  have a: "''https://h//'' = ''https://h'' @ ''//''"
    by simp
  have b: "''https://h/'' = ''https://h'' @ ''/''"
    by simp
  have c: "\<nexists>p. ''https://h'' = p @ ''/''"
    by (simp add: append_eq_Cons_conv)
  from constructor_strips_one_slash [OF k, of "''https://h//''"] a
  have r1: "constructor \<lparr>cfg_apiKey = Some ''key'', cfg_endpoint = Some ''https://h//''\<rparr>
     = Inr \<lparr>apiKey = ''key'', client_baseUrl = ''https://h'' @ ''/''\<rparr>"
    by blast
  from constructor_strips_one_slash [OF k, of "''https://h/''"] b
  have r2: "constructor \<lparr>cfg_apiKey = Some ''key'', cfg_endpoint = Some ''https://h/''\<rparr>
     = Inr \<lparr>apiKey = ''key'', client_baseUrl = ''https://h''\<rparr>"
    by blast
  from constructor_strips_one_slash [OF k, of "''https://h''"] c
  have r3: "constructor \<lparr>cfg_apiKey = Some ''key'', cfg_endpoint = Some ''https://h''\<rparr>
     = Inr \<lparr>apiKey = ''key'', client_baseUrl = ''https://h''\<rparr>"
    by blast
  from r1 r2 r3 show ?thesis
    by simp
qed

section \<open>Claims about the create phase\<close>

text \<open>
  C1. If the creation call throws a transport exception or returns a non-success
  result, the create phase ends in an error; and whenever the create phase ends in an
  error, \<open>ask\<close> returns that very error, with any fuel (the loop is not entered), in a
  state where the number of polls is unchanged and the only new event is the creation
  request: no poll request is issued.
\<close>

theorem ask_create_failure_never_polls:
  "(create_result e = Rejected \<or> (\<exists>data err resp. create_result e = Resolved data (Some err) resp)
      \<longrightarrow> isl (fst (createConfirmation this e question s))) \<and>
   (fst (createConfirmation this e question s) = Inl err \<longrightarrow>
      ask fuel this e question opts s = Some (Inl err, after_create this e question s) \<and>
      polls (after_create this e question s) = polls s \<and>
      trace (after_create this e question s) =
        trace s @ [POST_create (client_baseUrl this) (apiKey this) question] \<and>
      filter is_poll (trace (after_create this e question s)) = filter is_poll (trace s))"
proof (intro conjI impI)
  assume "create_result e = Rejected \<or> (\<exists>data err resp. create_result e = Resolved data (Some err) resp)"
  then show "isl (fst (createConfirmation this e question s))"
    by (auto simp: createConfirmation_def Let_def)
next
  assume "fst (createConfirmation this e question s) = Inl err"
  then have "createConfirmation this e question s = (Inl err, after_create this e question s)"
    using createConfirmation_state [of this e question s]
    by (cases "createConfirmation this e question s") simp
  then show "ask fuel this e question opts s = Some (Inl err, after_create this e question s)"
    by (rule ask_create_error)
qed (simp_all add: after_create_def)

theorem ask_create_failure_never_polls_witness:
  "ask 0 demo_client
     (demo_env\<lparr>create_result := Resolved None (Some ''boom'') \<lparr>statusText = ''Internal Server Error'', ok = False\<rparr>\<rparr>)
     demo_question None idle =
   Some (Inl \<lparr>reason = CreateFailed, description = Some ''Internal Server Error''\<rparr>,
         \<lparr>now = 5, polls = 0,
          trace = [POST_create ''https://api.waithuman.com'' ''key'' demo_question]\<rparr>)"
proof -
  let ?e = "demo_env\<lparr>create_result := Resolved None (Some ''boom'') \<lparr>statusText = ''Internal Server Error'', ok = False\<rparr>\<rparr>"
  have c: "fst (createConfirmation demo_client ?e demo_question idle) =
      Inl \<lparr>reason = CreateFailed, description = Some ''Internal Server Error''\<rparr>"
    by (simp add: createConfirmation_def Let_def demo_env_def)
  have s: "after_create demo_client ?e demo_question idle =
      \<lparr>now = 5, polls = 0, trace = [POST_create ''https://api.waithuman.com'' ''key'' demo_question]\<rparr>"
    by (simp add: after_create_def demo_env_def demo_client_def idle_def)
  from ask_create_failure_never_polls [of ?e demo_client demo_question idle _ 0 None, THEN conjunct2, rule_format, OF c]
  show ?thesis
    by (simp only: s)
qed

text \<open>
  C2 (counterexample). Creation answers with success and a body that has no
  \<open>confirmation_request_id\<close>; the first poll carries an answer. \<open>ask\<close> does not return
  \<open>create_failed\<close>: it polls with an undefined identifier and returns the answer.
\<close>

theorem ask_missing_identifier_polls:
  "ask 1 demo_client
     (demo_env\<lparr>create_result := Resolved (Some \<lparr>confirmation_request_id = None\<rparr>) None ok_response,
               poll_result := (\<lambda>i. answered (FreeText ''yes''))\<rparr>)
     demo_question None idle =
   Some (Inr \<lparr>answer = \<lparr>answer_content = FreeText ''yes''\<rparr>\<rparr>,
         \<lparr>now = 6, polls = 1,
          trace = [POST_create ''https://api.waithuman.com'' ''key'' demo_question,
                   GET_confirmation ''https://api.waithuman.com'' ''key'' None False]\<rparr>)"
  by (simp add: engine_defs demo_defs)

text \<open>
  C2 (amended). During the create phase, for every question: a transport exception
  makes \<open>ask\<close> return \<open>network_error\<close> (no description); a non-success response, and also
  a success response without a body, make \<open>ask\<close> return \<open>create_failed\<close> with the remote
  status text as description. A success response with a body counts as created, whatever
  the body holds: \<open>ask\<close> goes on to poll with the body's \<open>confirmation_request_id\<close>, be it
  undefined.
\<close>

theorem ask_create_phase:
  "(create_result e = Rejected \<longrightarrow>
      ask fuel this e question opts s =
        Some (Inl \<lparr>reason = NetworkError, description = None\<rparr>, after_create this e question s)) \<and>
   (\<forall>data err resp. create_result e = Resolved data (Some err) resp \<longrightarrow>
      ask fuel this e question opts s =
        Some (Inl \<lparr>reason = CreateFailed, description = Some (statusText resp)\<rparr>,
              after_create this e question s)) \<and>
   (\<forall>resp. create_result e = Resolved None None resp \<longrightarrow>
      ask fuel this e question opts s =
        Some (Inl \<lparr>reason = CreateFailed, description = Some (statusText resp)\<rparr>,
              after_create this e question s)) \<and>
   (\<forall>d resp. create_result e = Resolved (Some d) None resp \<longrightarrow>
      ask fuel this e question opts s =
        pollForAnswer fuel this e (confirmation_request_id d)
          (case opts of None \<Rightarrow> None | Some opt \<Rightarrow> timeoutSeconds opt)
          (after_create this e question s))"
  by (simp add: ask_def createConfirmation_def Let_def)

theorem ask_create_phase_witness:
  "ask 0 demo_client (demo_env\<lparr>create_result := Rejected\<rparr>) demo_question None idle =
     Some (Inl \<lparr>reason = NetworkError, description = None\<rparr>,
           \<lparr>now = 5, polls = 0, trace = [POST_create ''https://api.waithuman.com'' ''key'' demo_question]\<rparr>) \<and>
   ask 0 demo_client
       (demo_env\<lparr>create_result := Resolved None (Some ''no'') \<lparr>statusText = ''Forbidden'', ok = False\<rparr>\<rparr>)
       demo_question None idle =
     Some (Inl \<lparr>reason = CreateFailed, description = Some ''Forbidden''\<rparr>,
           \<lparr>now = 5, polls = 0, trace = [POST_create ''https://api.waithuman.com'' ''key'' demo_question]\<rparr>) \<and>
   ask 0 demo_client
       (demo_env\<lparr>create_result := Resolved None None \<lparr>statusText = ''No Content'', ok = True\<rparr>\<rparr>)
       demo_question None idle =
     Some (Inl \<lparr>reason = CreateFailed, description = Some ''No Content''\<rparr>,
           \<lparr>now = 5, polls = 0, trace = [POST_create ''https://api.waithuman.com'' ''key'' demo_question]\<rparr>) \<and>
   ask 0 demo_client demo_env demo_question None idle = None"
proof -
  let ?e1 = "demo_env\<lparr>create_result := Rejected\<rparr>"
  let ?e2 = "demo_env\<lparr>create_result := Resolved None (Some ''no'') \<lparr>statusText = ''Forbidden'', ok = False\<rparr>\<rparr>"
  let ?e3 = "demo_env\<lparr>create_result := Resolved None None \<lparr>statusText = ''No Content'', ok = True\<rparr>\<rparr>"
  have s: "after_create demo_client (demo_env\<lparr>create_result := r\<rparr>) demo_question idle =
      \<lparr>now = 5, polls = 0, trace = [POST_create ''https://api.waithuman.com'' ''key'' demo_question]\<rparr>"
    for r
    by (simp add: after_create_def demo_env_def demo_client_def idle_def)
  have c1: "create_result ?e1 = Rejected"
    by simp
  have c2: "create_result ?e2 = Resolved None (Some ''no'') \<lparr>statusText = ''Forbidden'', ok = False\<rparr>"
    by simp
  have c3: "create_result ?e3 = Resolved None None \<lparr>statusText = ''No Content'', ok = True\<rparr>"
    by simp
  have c4: "create_result demo_env = Resolved (Some \<lparr>confirmation_request_id = Some ''id1''\<rparr>) None ok_response"
    by (simp add: demo_env_def created_def)
  from ask_create_phase [of ?e1 0 demo_client demo_question None idle, THEN conjunct1, rule_format, OF c1]
  have r1: "ask 0 demo_client ?e1 demo_question None idle =
     Some (Inl \<lparr>reason = NetworkError, description = None\<rparr>,
           \<lparr>now = 5, polls = 0, trace = [POST_create ''https://api.waithuman.com'' ''key'' demo_question]\<rparr>)"
    by (simp only: s)
  from ask_create_phase [of ?e2 0 demo_client demo_question None idle,
      THEN conjunct2, THEN conjunct1, rule_format, OF c2]
  have r2: "ask 0 demo_client ?e2 demo_question None idle =
     Some (Inl \<lparr>reason = CreateFailed, description = Some ''Forbidden''\<rparr>,
           \<lparr>now = 5, polls = 0, trace = [POST_create ''https://api.waithuman.com'' ''key'' demo_question]\<rparr>)"
    by (simp add: s)
  from ask_create_phase [of ?e3 0 demo_client demo_question None idle,
      THEN conjunct2, THEN conjunct2, THEN conjunct1, rule_format, OF c3]
  have r3: "ask 0 demo_client ?e3 demo_question None idle =
     Some (Inl \<lparr>reason = CreateFailed, description = Some ''No Content''\<rparr>,
           \<lparr>now = 5, polls = 0, trace = [POST_create ''https://api.waithuman.com'' ''key'' demo_question]\<rparr>)"
    by (simp add: s)
  from ask_create_phase [of demo_env 0 demo_client demo_question None idle,
      THEN conjunct2, THEN conjunct2, THEN conjunct2, rule_format, OF c4]
  have r4: "ask 0 demo_client demo_env demo_question None idle = None"
    by (simp add: pollForAnswer_def)
  from r1 r2 r3 r4 show ?thesis
    by simp
qed

section \<open>Claims about the poll loop\<close>

text \<open>
  The two failure exits of an iteration. Let creation succeed, and let the first \<open>k\<close>
  polls find no answer, the deadline not being passed at the top of the iterations
  \<open>0..k\<close>. If poll \<open>k\<close> throws a transport exception, \<open>ask\<close> returns \<open>network_error\<close>
  (no description); if it resolves with a truthy \<open>error\<close>, \<open>ask\<close> returns \<open>poll_failed\<close>
  with the remote status text as description. Both hold with any fuel left, and the
  poll request is the last event.
\<close>

lemma ask_poll_failure_exits:
  assumes "createConfirmation this e question s = (Inr cid, s1)"
    and "timeout = (case opts of None \<Rightarrow> None | Some opt \<Rightarrow> timeoutSeconds opt)"
    and "\<forall>j<k. pending (poll_result e (polls s1 + j)) \<and>
           \<not> deadline_passed timeout
               (elapsedSeconds (now s1) (loop_top this e cid j (loop_entry e s1)))"
    and "\<not> deadline_passed timeout
             (elapsedSeconds (now s1) (loop_top this e cid k (loop_entry e s1)))"
  shows "(poll_result e (polls s1 + k) = Rejected \<longrightarrow>
            ask (Suc k + fuel) this e question opts s =
              Some (Inl \<lparr>reason = NetworkError, description = None\<rparr>,
                    after_poll this e cid (loop_top this e cid k (loop_entry e s1)))) \<and>
         (\<forall>data err resp. poll_result e (polls s1 + k) = Resolved data (Some err) resp \<longrightarrow>
            ask (Suc k + fuel) this e question opts s =
              Some (Inl \<lparr>reason = PollFailed, description = Some (statusText resp)\<rparr>,
                    after_poll this e cid (loop_top this e cid k (loop_entry e s1)))) \<and>
         polls (after_poll this e cid (loop_top this e cid k (loop_entry e s1))) = polls s1 + Suc k \<and>
         trace (after_poll this e cid (loop_top this e cid k (loop_entry e s1))) =
           trace (loop_top this e cid k (loop_entry e s1)) @
             [GET_confirmation (client_baseUrl this) (apiKey this) cid False]"
proof -
  let ?s0 = "loop_entry e s1"
  let ?top = "loop_top this e cid k ?s0"
  have "ask (Suc k + fuel) this e question opts s =
      poll_loop (k + Suc fuel) this e cid timeout (now s1) ?s0"
    using assms(1,2) by (simp add: ask_created pollForAnswer_def)
  also have "\<dots> = poll_loop (Suc fuel) this e cid timeout (now s1) ?top"
    using assms(3) by (intro poll_loop_skip) (simp add: loop_entry_simps)
  finally have run: "ask (Suc k + fuel) this e question opts s =
      poll_loop (Suc fuel) this e cid timeout (now s1) ?top" .
  have idx: "polls ?top = polls s1 + k"
    by (simp add: polls_loop_top loop_entry_simps)
  have "ask (Suc k + fuel) this e question opts s =
      Some (Inl \<lparr>reason = NetworkError, description = None\<rparr>, after_poll this e cid ?top)"
    if "poll_result e (polls s1 + k) = Rejected"
    using that run idx poll_loop_rejected [OF assms(4)] by simp
  moreover have "ask (Suc k + fuel) this e question opts s =
      Some (Inl \<lparr>reason = PollFailed, description = Some (statusText resp)\<rparr>, after_poll this e cid ?top)"
    if "poll_result e (polls s1 + k) = Resolved data (Some err) resp" for data err resp
    using that run idx poll_loop_non_success [OF assms(4)] by simp
  ultimately show ?thesis
    using idx by (simp add: after_poll_simps)
qed

text \<open>
  C3 (failing input). Creation succeeds; the first poll resolves with a non-success
  response (status 500) whose body is empty, so that \<open>error\<close> is undefined; the second
  poll carries an answer. \<open>ask\<close> does not return \<open>poll_failed\<close> at the first poll: it sets
  the timer of 3000 ms, polls again and returns the answer.
\<close>

theorem ask_polls_on_after_non_success_without_body:
  "ask 2 demo_client
     (demo_env\<lparr>poll_result :=
        (\<lambda>i. if i = 0 then Resolved None None \<lparr>statusText = ''Internal Server Error'', ok = False\<rparr>
             else answered (FreeText ''yes''))\<rparr>)
     demo_question None idle =
   Some (Inr \<lparr>answer = \<lparr>answer_content = FreeText ''yes''\<rparr>\<rparr>,
         \<lparr>now = 3006, polls = 2,
          trace = [POST_create ''https://api.waithuman.com'' ''key'' demo_question,
                   GET_confirmation ''https://api.waithuman.com'' ''key'' (Some ''id1'') False,
                   SetTimeout 3000,
                   GET_confirmation ''https://api.waithuman.com'' ''key'' (Some ''id1'') False]\<rparr>)"
  by (simp add: engine_defs demo_defs numeral_2_eq_2)

text \<open>
  C8. Whatever \<open>ask\<close> returns as an error has one of the reasons \<open>network_error\<close>,
  \<open>create_failed\<close>, \<open>poll_failed\<close> and \<open>timeout\<close>, never \<open>invalid_response\<close> or
  \<open>unexpected_answer_type\<close>. And let creation succeed and each of the first \<open>k\<close> polls
  resolve without a truthy \<open>error\<close> and without an answer (no body, or a body whose
  \<open>maybe_answer\<close> is null), the deadline not being passed at the top of their
  iterations. Then \<open>ask\<close> has not returned after these \<open>k\<close> iterations, and it goes on
  from the deadline check of iteration \<open>k\<close>; by then it has made \<open>k\<close> polls, and since
  creation the events are \<open>k\<close> times a poll request followed by a timer of 3000 ms.
  From the top of one of these iterations to the top of the next, the clock advances by
  the duration of the poll, 3000 ms and the lag of the timer.
\<close>

theorem ask_error_reasons_and_pending_poll:
  "(ask fuel this e question opts s = Some (Inl err, s') \<longrightarrow>
      reason err \<in> {NetworkError, CreateFailed, PollFailed, Timeout} \<and>
      reason err \<noteq> InvalidResponse \<and> reason err \<noteq> UnexpectedAnswerType) \<and>
   (createConfirmation this e question s = (Inr cid, s1) \<and>
    timeout = (case opts of None \<Rightarrow> None | Some opt \<Rightarrow> timeoutSeconds opt) \<and>
    (\<forall>j<k. pending (poll_result e (polls s1 + j)) \<and>
       \<not> deadline_passed timeout
           (elapsedSeconds (now s1) (loop_top this e cid j (loop_entry e s1)))) \<longrightarrow>
      ask k this e question opts s = None \<and>
      ask (k + fuel) this e question opts s =
        poll_loop fuel this e cid timeout (now s1) (loop_top this e cid k (loop_entry e s1)) \<and>
      polls (loop_top this e cid k (loop_entry e s1)) = polls s1 + k \<and>
      trace (loop_top this e cid k (loop_entry e s1)) =
        trace s1 @ concat (replicate k
          [GET_confirmation (client_baseUrl this) (apiKey this) cid False, SetTimeout 3000]) \<and>
      (\<forall>j<k. now (loop_top this e cid (Suc j) (loop_entry e s1)) =
         now (loop_top this e cid j (loop_entry e s1)) +
           poll_ms e (polls s1 + j) + 3000 + timer_lag_ms e (polls s1 + j)))"
proof (intro conjI impI)
  assume run: "ask fuel this e question opts s = Some (Inl err, s')"
  show "reason err \<in> {NetworkError, CreateFailed, PollFailed, Timeout}"
  proof (cases "createConfirmation this e question s")
    case (Pair r s1)
    show ?thesis
    proof (cases r)
      case (Inl cerr)
      with Pair run have "err = cerr"
        by (simp add: ask_create_error)
      moreover from Pair Inl have "reason cerr \<in> {NetworkError, CreateFailed}"
        by (auto simp: createConfirmation_def Let_def split: FetchResult.splits option.splits)
      ultimately show ?thesis
        by auto
    next
      case (Inr confirmationId)
      with Pair run have "poll_loop fuel this e confirmationId
          (case opts of None \<Rightarrow> None | Some opt \<Rightarrow> timeoutSeconds opt) (now s1) (loop_entry e s1) =
            Some (Inl err, s')"
        by (simp add: ask_created pollForAnswer_def)
      then have "reason err \<in> {NetworkError, PollFailed, Timeout}"
        by (rule poll_loop_reasons)
      then show ?thesis
        by auto
    qed
  qed
  then show "reason err \<noteq> InvalidResponse" "reason err \<noteq> UnexpectedAnswerType"
    by auto
next
  assume a: "createConfirmation this e question s = (Inr cid, s1) \<and>
    timeout = (case opts of None \<Rightarrow> None | Some opt \<Rightarrow> timeoutSeconds opt) \<and>
    (\<forall>j<k. pending (poll_result e (polls s1 + j)) \<and>
       \<not> deadline_passed timeout
           (elapsedSeconds (now s1) (loop_top this e cid j (loop_entry e s1))))"
  let ?s0 = "loop_entry e s1"
  from a have created: "createConfirmation this e question s = (Inr cid, s1)"
    and timeout: "timeout = (case opts of None \<Rightarrow> None | Some opt \<Rightarrow> timeoutSeconds opt)"
    and before: "\<forall>j<k. pending (poll_result e (polls s1 + j)) \<and>
       \<not> deadline_passed timeout
           (elapsedSeconds (now s1) (loop_top this e cid j (loop_entry e s1)))"
    by blast+
  have skip: "poll_loop (k + n) this e cid timeout (now s1) ?s0 =
      poll_loop n this e cid timeout (now s1) (loop_top this e cid k ?s0)" for n
  proof (rule poll_loop_skip)
    fix j assume "j < k"
    with before show "pending (poll_result e (polls ?s0 + j)) \<and>
        \<not> deadline_passed timeout (elapsedSeconds (now s1) (loop_top this e cid j ?s0))"
      by (simp add: loop_entry_simps)
  qed
  have start: "ask n this e question opts s = poll_loop n this e cid timeout (now s1) ?s0" for n
    using created timeout by (simp add: ask_created pollForAnswer_def)
  from skip [of 0] show "ask k this e question opts s = None"
    by (simp add: start)
  from skip [of fuel] show "ask (k + fuel) this e question opts s =
        poll_loop fuel this e cid timeout (now s1) (loop_top this e cid k (loop_entry e s1))"
    by (simp add: start)
  show "polls (loop_top this e cid k (loop_entry e s1)) = polls s1 + k"
    by (simp add: polls_loop_top loop_entry_simps)
  show "trace (loop_top this e cid k (loop_entry e s1)) =
        trace s1 @ concat (replicate k
          [GET_confirmation (client_baseUrl this) (apiKey this) cid False, SetTimeout 3000])"
    by (simp add: trace_loop_top loop_entry_simps)
  show "\<forall>j<k. now (loop_top this e cid (Suc j) (loop_entry e s1)) =
         now (loop_top this e cid j (loop_entry e s1)) +
           poll_ms e (polls s1 + j) + 3000 + timer_lag_ms e (polls s1 + j)"
    by (simp only: now_loop_top_Suc loop_entry_simps) simp
qed


theorem ask_error_reasons_and_pending_poll_witness:
  "(\<exists>err s'. ask 3 demo_client demo_env demo_question (Some \<lparr>timeoutSeconds = Some (Finite 4)\<rparr>) idle
        = Some (Inl err, s') \<and>
      reason err = Timeout \<and> reason err \<in> {NetworkError, CreateFailed, PollFailed, Timeout}) \<and>
   ask 2 demo_client
       (demo_env\<lparr>poll_result :=
          (\<lambda>i. if i = 0 then Resolved None None ok_response
               else if i = 1 then no_answer else answered (FreeText ''yes''))\<rparr>)
       demo_question None idle = None \<and>
   ask 3 demo_client
       (demo_env\<lparr>poll_result :=
          (\<lambda>i. if i = 0 then Resolved None None ok_response
               else if i = 1 then no_answer else answered (FreeText ''yes''))\<rparr>)
       demo_question None idle =
     Some (Inr \<lparr>answer = \<lparr>answer_content = FreeText ''yes''\<rparr>\<rparr>,
           \<lparr>now = 6006, polls = 3,
            trace = [POST_create ''https://api.waithuman.com'' ''key'' demo_question,
                     GET_confirmation ''https://api.waithuman.com'' ''key'' (Some ''id1'') False,
                     SetTimeout 3000,
                     GET_confirmation ''https://api.waithuman.com'' ''key'' (Some ''id1'') False,
                     SetTimeout 3000,
                     GET_confirmation ''https://api.waithuman.com'' ''key'' (Some ''id1'') False]\<rparr>)"
proof -
  let ?o = "Some \<lparr>timeoutSeconds = Some (Finite 4)\<rparr>"
  let ?err = "\<lparr>reason = Timeout, description = Some ''elapsed seconds: 6.001''\<rparr>"
  let ?fin = "\<lparr>now = 6006, polls = 2,
      trace = [POST_create ''https://api.waithuman.com'' ''key'' demo_question,
               GET_confirmation ''https://api.waithuman.com'' ''key'' (Some ''id1'') False,
               SetTimeout 3000,
               GET_confirmation ''https://api.waithuman.com'' ''key'' (Some ''id1'') False,
               SetTimeout 3000]\<rparr>"
  have run: "ask 3 demo_client demo_env demo_question ?o idle = Some (Inl ?err, ?fin)"
    by (simp add: engine_defs demo_defs numeral_3_eq_3 decimal_text_samples)
  from ask_error_reasons_and_pending_poll
         [where fuel = 3 and this = demo_client and e = demo_env and question = demo_question
            and opts = ?o and s = idle and err = ?err and s' = ?fin, THEN conjunct1, rule_format, OF run]
  have "reason ?err \<in> {NetworkError, CreateFailed, PollFailed, Timeout}"
    by simp
  with run have part1: "\<exists>err s'. ask 3 demo_client demo_env demo_question ?o idle = Some (Inl err, s') \<and>
      reason err = Timeout \<and> reason err \<in> {NetworkError, CreateFailed, PollFailed, Timeout}"
    by (intro exI [of _ ?err] exI [of _ ?fin]) simp
  let ?e = "demo_env\<lparr>poll_result :=
      (\<lambda>i. if i = 0 then Resolved None None ok_response
           else if i = 1 then no_answer else answered (FreeText ''yes''))\<rparr>"
  let ?s1 = "\<lparr>now = 5, polls = 0,
      trace = [POST_create ''https://api.waithuman.com'' ''key'' demo_question]\<rparr>"
  have hyp: "createConfirmation demo_client ?e demo_question idle = (Inr (Some ''id1''), ?s1) \<and>
      None = (case None of None \<Rightarrow> None | Some opt \<Rightarrow> timeoutSeconds opt) \<and>
      (\<forall>j<2. pending (poll_result ?e (polls ?s1 + j)) \<and>
         \<not> deadline_passed None
             (elapsedSeconds (now ?s1) (loop_top demo_client ?e (Some ''id1'') j (loop_entry ?e ?s1))))"
    using demo_created [of _ demo_question]
    by (auto simp: less_2_cases_iff no_answer_def deadline_passed_def)
  note t = ask_error_reasons_and_pending_poll
         [where this = demo_client and e = ?e and question = demo_question and opts = None
            and s = idle and cid = "Some ''id1''" and ?s1.0 = ?s1 and timeout = None and k = 2
            and fuel = 1, THEN conjunct2, rule_format, OF hyp]
  from t [THEN conjunct1] have part2: "ask 2 demo_client ?e demo_question None idle = None" .
  have last: "poll_loop 1 demo_client ?e (Some ''id1'') None (now ?s1)
        (loop_top demo_client ?e (Some ''id1'') 2 (loop_entry ?e ?s1)) =
     Some (Inr \<lparr>answer = \<lparr>answer_content = FreeText ''yes''\<rparr>\<rparr>,
           \<lparr>now = 6006, polls = 3,
            trace = [POST_create ''https://api.waithuman.com'' ''key'' demo_question,
                     GET_confirmation ''https://api.waithuman.com'' ''key'' (Some ''id1'') False,
                     SetTimeout 3000,
                     GET_confirmation ''https://api.waithuman.com'' ''key'' (Some ''id1'') False,
                     SetTimeout 3000,
                     GET_confirmation ''https://api.waithuman.com'' ''key'' (Some ''id1'') False]\<rparr>)"
    by (simp add: engine_defs demo_defs numeral_2_eq_2)
  from t [THEN conjunct2, THEN conjunct1]
  have part3: "ask 3 demo_client ?e demo_question None idle =
     Some (Inr \<lparr>answer = \<lparr>answer_content = FreeText ''yes''\<rparr>\<rparr>,
           \<lparr>now = 6006, polls = 3,
            trace = [POST_create ''https://api.waithuman.com'' ''key'' demo_question,
                     GET_confirmation ''https://api.waithuman.com'' ''key'' (Some ''id1'') False,
                     SetTimeout 3000,
                     GET_confirmation ''https://api.waithuman.com'' ''key'' (Some ''id1'') False,
                     SetTimeout 3000,
                     GET_confirmation ''https://api.waithuman.com'' ''key'' (Some ''id1'') False]\<rparr>)"
    by (simp only: last) simp
  from part1 part2 part3 show ?thesis
    by (intro conjI)
qed

section \<open>Claims about the deadline\<close>

text \<open>
  C4 (counterexample). With a timeout of 1 s and a first poll that takes 10 s, the
  timeout is returned 13.001 s after the loop started, not within 1 + 3 s. And with a
  timeout of -5 s it is returned at the first check, 0.001 s after the start: more than
  3 s after the deadline.
\<close>

theorem ask_timeout_later_than_interval:
  "ask 2 demo_client (demo_env\<lparr>poll_ms := (\<lambda>i. 10000)\<rparr>) demo_question
       (Some \<lparr>timeoutSeconds = Some (Finite 1)\<rparr>) idle =
     Some (Inl \<lparr>reason = Timeout, description = Some ''elapsed seconds: 13.001''\<rparr>,
           \<lparr>now = 13006, polls = 1,
            trace = [POST_create ''https://api.waithuman.com'' ''key'' demo_question,
                     GET_confirmation ''https://api.waithuman.com'' ''key'' (Some ''id1'') False,
                     SetTimeout 3000]\<rparr>) \<and>
   \<not> elapsedSeconds 5 \<lparr>now = 13006, polls = 1,
            trace = [POST_create ''https://api.waithuman.com'' ''key'' demo_question,
                     GET_confirmation ''https://api.waithuman.com'' ''key'' (Some ''id1'') False,
                     SetTimeout 3000]\<rparr> \<le> 1 + 3 \<and>
   pollForAnswer 1 demo_client demo_env (Some ''id1'') (Some (Finite (- 5))) idle =
     Some (Inl \<lparr>reason = Timeout, description = Some ''elapsed seconds: 0.001''\<rparr>,
           \<lparr>now = 1, polls = 0, trace = []\<rparr>) \<and>
   \<not> elapsedSeconds (now idle) \<lparr>now = 1, polls = 0, trace = []\<rparr> \<le> - 5 + 3"
  by (simp add: engine_defs demo_defs numeral_2_eq_2 decimal_text_samples)

text \<open>
  C4 (amended). Let creation succeed, let no poll ever fail or carry an answer, and let
  \<open>d\<close> ms bound the time between the start timestamp and the first reading of the
  clock in the loop, and the duration of a poll call plus the lag of the timer after
  it. Then for every finite timeout \<open>T \<ge> 0\<close>, \<open>ask\<close> returns \<open>timeout\<close> (with enough fuel),
  at an elapsed time \<open>t\<close> since the start timestamp with \<open>T < t \<le> T + 3 + d / 1000\<close>: no
  earlier than \<open>T\<close>, and within one poll interval of \<open>T\<close> up to \<open>d\<close>. With a negative
  timeout the loop returns \<open>timeout\<close> at its first check, before any poll. The comparison
  is strict; at the top of an iteration where the deadline is passed the loop returns
  \<open>timeout\<close> in an unchanged state (no poll is sent), and where it is not passed the next
  event is the poll request. When the timeout is undefined, null, \<open>NaN\<close> or \<open>Infinity\<close>
  the loop never returns \<open>timeout\<close>.
\<close>

theorem ask_timeout_window:
  "((\<forall>i. pending (poll_result e i)) \<and>
    (\<forall>i. 0 \<le> poll_ms e i \<and> 0 \<le> timer_lag_ms e i \<and> poll_ms e i + timer_lag_ms e i \<le> d) \<and>
    0 \<le> start_gap_ms e \<and> start_gap_ms e \<le> d \<and> 0 \<le> T \<and>
    createConfirmation this e question s = (Inr cid, s1) \<longrightarrow>
      (\<exists>fuel s'.
         ask fuel this e question (Some \<lparr>timeoutSeconds = Some (Finite T)\<rparr>) s =
           Some (Inl \<lparr>reason = Timeout,
                      description =
                        Some (''elapsed seconds: '' @ number_text e (elapsedSeconds (now s1) s'))\<rparr>, s') \<and>
         T < elapsedSeconds (now s1) s' \<and>
         elapsedSeconds (now s1) s' \<le> T + 3 + d / 1000)) \<and>
   (T < 0 \<and> 0 \<le> start_gap_ms e \<and> (timeout = Some (Finite T) \<or> timeout = Some NegInfinity) \<longrightarrow>
      pollForAnswer (Suc fuel) this e cid timeout st =
        Some (Inl \<lparr>reason = Timeout,
                   description = Some (''elapsed seconds: '' @ number_text e (start_gap_ms e / 1000))\<rparr>,
              loop_entry e st)) \<and>
   (deadline_passed (Some (Finite T)) x \<longleftrightarrow> T < x) \<and>
   (deadline_passed timeout (elapsedSeconds start st) \<longrightarrow>
      poll_loop (Suc fuel) this e cid timeout start st =
        Some (Inl \<lparr>reason = Timeout,
                   description =
                     Some (''elapsed seconds: '' @ number_text e (elapsedSeconds start st))\<rparr>, st)) \<and>
   (\<not> deadline_passed timeout (elapsedSeconds start st) \<and>
    poll_loop (Suc fuel) this e cid timeout start st = Some (r, st') \<longrightarrow>
      (\<exists>tr. trace st' =
         trace st @ GET_confirmation (client_baseUrl this) (apiKey this) cid False # tr)) \<and>
   ((timeout = None \<or> timeout = Some NaN \<or> timeout = Some PosInfinity) \<and>
    poll_loop fuel this e cid timeout start st = Some (Inl err, st') \<longrightarrow> reason err \<noteq> Timeout)"
proof (intro conjI impI)
  assume a: "(\<forall>i. pending (poll_result e i)) \<and>
    (\<forall>i. 0 \<le> poll_ms e i \<and> 0 \<le> timer_lag_ms e i \<and> poll_ms e i + timer_lag_ms e i \<le> d) \<and>
    0 \<le> start_gap_ms e \<and> start_gap_ms e \<le> d \<and> 0 \<le> T \<and>
    createConfirmation this e question s = (Inr cid, s1)"
  then have pend: "\<forall>i. pending (poll_result e i)"
    and dur: "\<forall>i. 0 \<le> poll_ms e i \<and> 0 \<le> timer_lag_ms e i \<and> poll_ms e i + timer_lag_ms e i \<le> d"
    and gap: "0 \<le> start_gap_ms e" "start_gap_ms e \<le> d"
    and T0: "0 \<le> T"
    and created: "createConfirmation this e question s = (Inr cid, s1)"
    by blast+
  let ?n = "nat \<lceil>T\<rceil> + 1"
  let ?s0 = "loop_entry e s1"
  have up: "T \<le> of_int \<lceil>T\<rceil>"
    by (rule le_of_int_ceiling)
  from T0 have "0 \<le> \<lceil>T\<rceil>"
    by simp
  then have n: "rat_of_nat ?n = of_int \<lceil>T\<rceil> + 1"
    by simp
  have "T * 1000 < g + 3000 * (C + 1)" if "0 \<le> T" "T \<le> C" "0 \<le> g" for C g :: rat
    using that by simp
  from this [OF T0 up gap(1)] n
  have far: "T * 1000 < now ?s0 - now s1 + 3000 * rat_of_nat ?n"
    by (simp add: loop_entry_simps)
  from T0 gap(2) have near: "now ?s0 - now s1 \<le> T * 1000 + 3000 + d"
    by (simp add: loop_entry_simps)
  from poll_loop_times_out [OF pend dur near far, of this cid]
  obtain s' where s': "poll_loop (Suc ?n) this e cid (Some (Finite T)) (now s1) ?s0 =
            Some (Inl \<lparr>reason = Timeout,
                        description =
                          Some (''elapsed seconds: '' @ number_text e (elapsedSeconds (now s1) s'))\<rparr>, s')"
    "T < elapsedSeconds (now s1) s'" "elapsedSeconds (now s1) s' \<le> T + 3 + d / 1000"
    by blast
  from created have "ask (Suc ?n) this e question (Some \<lparr>timeoutSeconds = Some (Finite T)\<rparr>) s =
      poll_loop (Suc ?n) this e cid (Some (Finite T)) (now s1) ?s0"
    by (simp add: ask_created pollForAnswer_def)
  with s' show "\<exists>fuel s'.
         ask fuel this e question (Some \<lparr>timeoutSeconds = Some (Finite T)\<rparr>) s =
           Some (Inl \<lparr>reason = Timeout,
                      description =
                        Some (''elapsed seconds: '' @ number_text e (elapsedSeconds (now s1) s'))\<rparr>, s') \<and>
         T < elapsedSeconds (now s1) s' \<and>
         elapsedSeconds (now s1) s' \<le> T + 3 + d / 1000"
    by (intro exI [of _ "Suc ?n"] exI [of _ s']) simp
next
  assume "T < 0 \<and> 0 \<le> start_gap_ms e \<and> (timeout = Some (Finite T) \<or> timeout = Some NegInfinity)"
  then show "pollForAnswer (Suc fuel) this e cid timeout st =
        Some (Inl \<lparr>reason = Timeout,
                   description = Some (''elapsed seconds: '' @ number_text e (start_gap_ms e / 1000))\<rparr>,
              loop_entry e st)"
    by (auto simp: pollForAnswer_def deadline_passed_def elapsedSeconds_def loop_entry_simps)
next
  show "deadline_passed (Some (Finite T)) x \<longleftrightarrow> T < x"
    by (simp add: deadline_passed_def)
next
  assume "deadline_passed timeout (elapsedSeconds start st)"
  then show "poll_loop (Suc fuel) this e cid timeout start st =
        Some (Inl \<lparr>reason = Timeout,
                   description =
                     Some (''elapsed seconds: '' @ number_text e (elapsedSeconds start st))\<rparr>, st)"
    by (rule poll_loop_deadline)
next
  assume "\<not> deadline_passed timeout (elapsedSeconds start st) \<and>
    poll_loop (Suc fuel) this e cid timeout start st = Some (r, st')"
  then show "\<exists>tr. trace st' =
         trace st @ GET_confirmation (client_baseUrl this) (apiKey this) cid False # tr"
    using poll_loop_dispatches by blast
next
  assume a: "(timeout = None \<or> timeout = Some NaN \<or> timeout = Some PosInfinity) \<and>
    poll_loop fuel this e cid timeout start st = Some (Inl err, st')"
  then have "\<not> deadline_passed timeout x" for x
    by (intro deadline_never_passed) simp
  from poll_loop_no_timeout [OF this] a show "reason err \<noteq> Timeout"
    by blast
qed


theorem ask_timeout_window_witness:
  "(\<exists>fuel s'.
      ask fuel demo_client demo_env demo_question (Some \<lparr>timeoutSeconds = Some (Finite 4)\<rparr>) idle =
        Some (Inl \<lparr>reason = Timeout,
                   description = Some (''elapsed seconds: '' @ decimal_text (elapsedSeconds 5 s'))\<rparr>, s') \<and>
      4 < elapsedSeconds 5 s' \<and> elapsedSeconds 5 s' \<le> 4 + 3 + 1 / 1000) \<and>
   pollForAnswer 1 demo_client demo_env (Some ''id1'') (Some (Finite (- 5))) idle =
     Some (Inl \<lparr>reason = Timeout, description = Some ''elapsed seconds: 0.001''\<rparr>,
           \<lparr>now = 1, polls = 0, trace = []\<rparr>) \<and>
   poll_loop 1 demo_client demo_env (Some ''id1'') (Some (Finite 1)) 0 \<lparr>now = 2000, polls = 0, trace = []\<rparr> =
     Some (Inl \<lparr>reason = Timeout, description = Some ''elapsed seconds: 2''\<rparr>,
           \<lparr>now = 2000, polls = 0, trace = []\<rparr>) \<and>
   (poll_loop 1 demo_client (demo_env\<lparr>poll_result := (\<lambda>i. Rejected)\<rparr>) (Some ''id1'')
        (Some (Finite 1)) 0 \<lparr>now = 1000, polls = 0, trace = []\<rparr> =
      Some (Inl \<lparr>reason = NetworkError, description = None\<rparr>,
            \<lparr>now = 1000, polls = 1,
             trace = [GET_confirmation ''https://api.waithuman.com'' ''key'' (Some ''id1'') False]\<rparr>) \<and>
    (\<exists>tr. [GET_confirmation ''https://api.waithuman.com'' ''key'' (Some ''id1'') False] =
       [] @ GET_confirmation ''https://api.waithuman.com'' ''key'' (Some ''id1'') False # tr)) \<and>
   (poll_loop 1 demo_client (demo_env\<lparr>poll_result := (\<lambda>i. Rejected)\<rparr>) (Some ''id1'')
        (Some PosInfinity) 0 \<lparr>now = 1000000, polls = 0, trace = []\<rparr> =
      Some (Inl \<lparr>reason = NetworkError, description = None\<rparr>,
            \<lparr>now = 1000000, polls = 1,
             trace = [GET_confirmation ''https://api.waithuman.com'' ''key'' (Some ''id1'') False]\<rparr>) \<and>
    reason \<lparr>reason = NetworkError, description = None\<rparr> \<noteq> Timeout)"
proof -
  let ?o = "Some \<lparr>timeoutSeconds = Some (Finite 4)\<rparr>"
  let ?s1 = "\<lparr>now = 5, polls = 0,
      trace = [POST_create ''https://api.waithuman.com'' ''key'' demo_question]\<rparr>"
  let ?get = "GET_confirmation ''https://api.waithuman.com'' ''key'' (Some ''id1'') False"
  have h1: "(\<forall>i. pending (poll_result demo_env i)) \<and>
      (\<forall>i. 0 \<le> poll_ms demo_env i \<and> 0 \<le> timer_lag_ms demo_env i \<and>
           poll_ms demo_env i + timer_lag_ms demo_env i \<le> 1) \<and>
      0 \<le> start_gap_ms demo_env \<and> start_gap_ms demo_env \<le> 1 \<and> (0::rat) \<le> 4 \<and>
      createConfirmation demo_client demo_env demo_question idle = (Inr (Some ''id1''), ?s1)"
    using demo_created [of "\<lambda>i. no_answer" demo_question] by (simp add: demo_env_def no_answer_def)
  from ask_timeout_window [where e = demo_env and d = 1 and T = 4 and this = demo_client
      and question = demo_question and s = idle and cid = "Some ''id1''" and ?s1.0 = ?s1,
      THEN conjunct1, rule_format, OF h1]
  have p1: "\<exists>fuel s'.
      ask fuel demo_client demo_env demo_question ?o idle =
        Some (Inl \<lparr>reason = Timeout,
                   description = Some (''elapsed seconds: '' @ decimal_text (elapsedSeconds 5 s'))\<rparr>, s') \<and>
      4 < elapsedSeconds 5 s' \<and> elapsedSeconds 5 s' \<le> 4 + 3 + 1 / 1000"
    by (simp add: demo_env_def)
  have h2: "(- 5 :: rat) < 0 \<and> 0 \<le> start_gap_ms demo_env \<and>
      (Some (Finite (- 5)) = Some (Finite (- 5)) \<or> Some (Finite (- 5)) = Some NegInfinity)"
    by (simp add: demo_env_def)
  from ask_timeout_window [where T = "- 5" and fuel = 0 and this = demo_client and e = demo_env
      and cid = "Some ''id1''" and st = idle and timeout = "Some (Finite (- 5))",
      THEN conjunct2, THEN conjunct1, rule_format, OF h2]
  have p2: "pollForAnswer 1 demo_client demo_env (Some ''id1'') (Some (Finite (- 5))) idle =
     Some (Inl \<lparr>reason = Timeout, description = Some ''elapsed seconds: 0.001''\<rparr>,
           \<lparr>now = 1, polls = 0, trace = []\<rparr>)"
    by (simp add: demo_env_def idle_def loop_entry_def decimal_text_samples)
  let ?late = "\<lparr>now = 2000, polls = 0, trace = []\<rparr>"
  have h3: "deadline_passed (Some (Finite 1)) (elapsedSeconds 0 ?late)"
    by (simp add: deadline_passed_def elapsedSeconds_def)
  from ask_timeout_window [where timeout = "Some (Finite 1)" and start = 0 and st = ?late and fuel = 0
      and this = demo_client and e = demo_env and cid = "Some ''id1''",
      THEN conjunct2, THEN conjunct2, THEN conjunct2, THEN conjunct1, rule_format, OF h3]
  have p3: "poll_loop 1 demo_client demo_env (Some ''id1'') (Some (Finite 1)) 0 ?late =
     Some (Inl \<lparr>reason = Timeout, description = Some ''elapsed seconds: 2''\<rparr>, ?late)"
    by (simp add: demo_env_def elapsedSeconds_def decimal_text_samples)
  let ?e = "demo_env\<lparr>poll_result := (\<lambda>i. Rejected)\<rparr>"
  let ?due = "\<lparr>now = 1000, polls = 0, trace = []\<rparr>"
  let ?err = "\<lparr>reason = NetworkError, description = None\<rparr>"
  have run4: "poll_loop 1 demo_client ?e (Some ''id1'') (Some (Finite 1)) 0 ?due =
      Some (Inl ?err, \<lparr>now = 1000, polls = 1, trace = [?get]\<rparr>)"
    by (simp add: engine_defs demo_defs)
  have h4: "\<not> deadline_passed (Some (Finite 1)) (elapsedSeconds 0 ?due) \<and>
      poll_loop (Suc 0) demo_client ?e (Some ''id1'') (Some (Finite 1)) 0 ?due =
        Some (Inl ?err, \<lparr>now = 1000, polls = 1, trace = [?get]\<rparr>)"
    using run4 by (simp add: deadline_passed_def elapsedSeconds_def)
  from ask_timeout_window [where timeout = "Some (Finite 1)" and start = 0 and st = ?due and fuel = 0
      and this = demo_client and e = ?e and cid = "Some ''id1''" and r = "Inl ?err"
      and st' = "\<lparr>now = 1000, polls = 1, trace = [?get]\<rparr>",
      THEN conjunct2, THEN conjunct2, THEN conjunct2, THEN conjunct2, THEN conjunct1,
      rule_format, OF h4]
  have p4: "\<exists>tr. [?get] = [] @ ?get # tr"
    by (simp add: demo_client_def)
  let ?far = "\<lparr>now = 1000000, polls = 0, trace = []\<rparr>"
  have run5: "poll_loop 1 demo_client ?e (Some ''id1'') (Some PosInfinity) 0 ?far =
      Some (Inl ?err, \<lparr>now = 1000000, polls = 1, trace = [?get]\<rparr>)"
    by (simp add: engine_defs demo_defs)
  have h5: "(Some PosInfinity = None \<or> Some PosInfinity = Some NaN \<or>
       Some PosInfinity = Some PosInfinity) \<and>
      poll_loop 1 demo_client ?e (Some ''id1'') (Some PosInfinity) 0 ?far =
        Some (Inl ?err, \<lparr>now = 1000000, polls = 1, trace = [?get]\<rparr>)"
    using run5 by simp
  from ask_timeout_window [where fuel = 1 and this = demo_client and e = ?e
      and cid = "Some ''id1''" and start = 0 and st = ?far and err = ?err
      and timeout = "Some PosInfinity"
      and st' = "\<lparr>now = 1000000, polls = 1, trace = [?get]\<rparr>",
      THEN conjunct2, THEN conjunct2, THEN conjunct2, THEN conjunct2, THEN conjunct2,
      rule_format, OF h5]
  have p5: "reason ?err \<noteq> Timeout" .
  from p1 p2 p3 run4 p4 run5 p5 show ?thesis
    by (intro conjI)
qed

section \<open>Claims about the typed convenience operations\<close>

text \<open>
  C5. \<open>askMultipleChoice\<close> sends the question \<open>{ method: push, subject, body,
  answer_format: { type: options, options: choices, multiple: false } }\<close>: it is the
  payload of the creation request, the first event of the call. When the engine, asked
  that question, succeeds with an answer of type \<open>options\<close> whose first selected index
  \<open>i\<close> satisfies \<open>0 \<le> i < length choices\<close>, the result is \<open>choices[i]\<close>, whatever
  indexes follow the first. In particular \<open>[a, b, c]\<close> with the selection \<open>[1]\<close> gives \<open>b\<close>.
\<close>

theorem askMultipleChoice_returns_choice:
  "(askMultipleChoice fuel this e subj choices bdy opts s = Some (r, s') \<longrightarrow>
      (\<exists>tr. trace s' = trace s @
         POST_create (client_baseUrl this) (apiKey this)
           \<lparr>method = Push, subject = subj, body = bdy,
            answer_format = OptionsFormat choices False\<rparr> # tr)) \<and>
   (ask fuel this e
        \<lparr>method = Push, subject = subj, body = bdy, answer_format = OptionsFormat choices False\<rparr>
        opts s = Some (Inr a, s') \<and>
    answer_content (answer a) = Options (i # others) \<and> 0 \<le> i \<and> i < int (length choices) \<longrightarrow>
      askMultipleChoice fuel this e subj choices bdy opts s = Some (Inr (choices ! nat i), s')) \<and>
   (ask fuel this e
        \<lparr>method = Push, subject = subj, body = bdy,
         answer_format = OptionsFormat [''a'', ''b'', ''c''] False\<rparr>
        opts s = Some (Inr a, s') \<and>
    answer_content (answer a) = Options [1] \<longrightarrow>
      askMultipleChoice fuel this e subj [''a'', ''b'', ''c''] bdy opts s = Some (Inr ''b'', s'))"
proof (intro conjI impI)
  let ?q = "\<lparr>method = Push, subject = subj, body = bdy, answer_format = OptionsFormat choices False\<rparr>"
  assume run: "askMultipleChoice fuel this e subj choices bdy opts s = Some (r, s')"
  then obtain ar where "ask fuel this e ?q opts s = Some (ar, s')"
    by (auto simp: askMultipleChoice_def Let_def
        split: option.splits sum.splits AnswerContent.splits if_splits)
  then show "\<exists>tr. trace s' = trace s @ POST_create (client_baseUrl this) (apiKey this) ?q # tr"
    by (rule ask_trace_starts_with_create)
next
  assume "ask fuel this e
        \<lparr>method = Push, subject = subj, body = bdy, answer_format = OptionsFormat choices False\<rparr>
        opts s = Some (Inr a, s') \<and>
    answer_content (answer a) = Options (i # others) \<and> 0 \<le> i \<and> i < int (length choices)"
  then show "askMultipleChoice fuel this e subj choices bdy opts s = Some (Inr (choices ! nat i), s')"
    by (simp add: askMultipleChoice_def index_head index_in_range)
next
  assume "ask fuel this e
        \<lparr>method = Push, subject = subj, body = bdy,
         answer_format = OptionsFormat [''a'', ''b'', ''c''] False\<rparr>
        opts s = Some (Inr a, s') \<and>
    answer_content (answer a) = Options [1]"
  then show "askMultipleChoice fuel this e subj [''a'', ''b'', ''c''] bdy opts s = Some (Inr ''b'', s')"
    by (simp add: askMultipleChoice_def index_head index_def)
qed

theorem askMultipleChoice_returns_choice_witness:
  "askMultipleChoice 1 demo_client (demo_env\<lparr>poll_result := (\<lambda>i. answered (Options [1, 2]))\<rparr>)
       ''Send invoice?'' [''a'', ''b'', ''c''] None None idle =
     Some (Inr ''b'',
           \<lparr>now = 6, polls = 1,
            trace = [POST_create ''https://api.waithuman.com'' ''key''
                       \<lparr>method = Push, subject = ''Send invoice?'', body = None,
                        answer_format = OptionsFormat [''a'', ''b'', ''c''] False\<rparr>,
                     GET_confirmation ''https://api.waithuman.com'' ''key'' (Some ''id1'') False]\<rparr>) \<and>
   askMultipleChoice 1 demo_client (demo_env\<lparr>poll_result := (\<lambda>i. answered (Options [1]))\<rparr>)
       ''Send invoice?'' [''a'', ''b'', ''c''] None None idle =
     Some (Inr ''b'',
           \<lparr>now = 6, polls = 1,
            trace = [POST_create ''https://api.waithuman.com'' ''key''
                       \<lparr>method = Push, subject = ''Send invoice?'', body = None,
                        answer_format = OptionsFormat [''a'', ''b'', ''c''] False\<rparr>,
                     GET_confirmation ''https://api.waithuman.com'' ''key'' (Some ''id1'') False]\<rparr>)"
proof -
  let ?q = "\<lparr>method = Push, subject = ''Send invoice?'', body = None,
      answer_format = OptionsFormat [''a'', ''b'', ''c''] False\<rparr>"
  let ?fin = "\<lparr>now = 6, polls = 1,
      trace = [POST_create ''https://api.waithuman.com'' ''key'' ?q,
               GET_confirmation ''https://api.waithuman.com'' ''key'' (Some ''id1'') False]\<rparr>"
  let ?e1 = "demo_env\<lparr>poll_result := (\<lambda>i. answered (Options [1, 2]))\<rparr>"
  let ?e2 = "demo_env\<lparr>poll_result := (\<lambda>i. answered (Options [1]))\<rparr>"
  let ?a1 = "\<lparr>answer = \<lparr>answer_content = Options [1, 2]\<rparr>\<rparr>"
  let ?a2 = "\<lparr>answer = \<lparr>answer_content = Options [1]\<rparr>\<rparr>"
  have h1: "ask 1 demo_client ?e1 ?q None idle = Some (Inr ?a1, ?fin) \<and>
      answer_content (answer ?a1) = Options (1 # [2]) \<and> (0::int) \<le> 1 \<and>
      (1::int) < int (length [''a'', ''b'', ''c''])"
    using demo_answer_run [of "Options [1, 2]" ?q] by simp
  from askMultipleChoice_returns_choice
         [where fuel = 1 and this = demo_client and e = ?e1 and subj = "''Send invoice?''"
            and choices = "[''a'', ''b'', ''c'']" and bdy = None and opts = None and s = idle
            and a = ?a1 and s' = ?fin and i = 1 and others = "[2]",
          THEN conjunct2, THEN conjunct1, rule_format, OF h1]
  have r1: "askMultipleChoice 1 demo_client ?e1 ''Send invoice?'' [''a'', ''b'', ''c''] None None idle =
      Some (Inr ''b'', ?fin)"
    by simp
  have h2: "ask 1 demo_client ?e2 ?q None idle = Some (Inr ?a2, ?fin) \<and>
      answer_content (answer ?a2) = Options [1]"
    using demo_answer_run [of "Options [1]" ?q] by simp
  from askMultipleChoice_returns_choice
         [where fuel = 1 and this = demo_client and e = ?e2 and subj = "''Send invoice?''"
            and bdy = None and opts = None and s = idle and a = ?a2 and s' = ?fin,
          THEN conjunct2, THEN conjunct2, rule_format, OF h2]
  have r2: "askMultipleChoice 1 demo_client ?e2 ''Send invoice?'' [''a'', ''b'', ''c''] None None idle =
      Some (Inr ''b'', ?fin)" .
  from r1 r2 show ?thesis
    by (rule conjI)
qed

text \<open>
  C6. When the engine, asked the question of \<open>askMultipleChoice\<close>, succeeds with an
  answer of type \<open>options\<close> whose list of selected indexes is empty, or starts with a
  negative index, or starts with an index that is at least \<open>length choices\<close>, the
  operation raises \<open>Invalid selected index received: \<close> followed by the text that
  the runtime gives the index (\<open>undefined\<close> for the empty list); it returns no value.
\<close>

theorem askMultipleChoice_invalid_index:
  "ask fuel this e
       \<lparr>method = Push, subject = subj, body = bdy, answer_format = OptionsFormat choices False\<rparr>
       opts s = Some (Inr a, s') \<and>
   answer_content (answer a) = Options idxs \<and>
   (idxs = [] \<or> (\<exists>i others. idxs = i # others \<and> (i < 0 \<or> int (length choices) \<le> i))) \<longrightarrow>
     askMultipleChoice fuel this e subj choices bdy opts s =
       Some (Inl (Error (''Invalid selected index received: '' @
                         (case idxs of [] \<Rightarrow> ''undefined''
                          | i # others \<Rightarrow> number_text e (of_int i)))), s')"
  by (auto simp: askMultipleChoice_def index_head index_empty invalid_index_message_def)

theorem askMultipleChoice_invalid_index_witness:
  "askMultipleChoice 1 demo_client (demo_env\<lparr>poll_result := (\<lambda>i. answered (Options [5]))\<rparr>)
       ''Send invoice?'' [''a'', ''b'', ''c''] None None idle =
     Some (Inl (Error ''Invalid selected index received: 5''),
           \<lparr>now = 6, polls = 1,
            trace = [POST_create ''https://api.waithuman.com'' ''key''
                       \<lparr>method = Push, subject = ''Send invoice?'', body = None,
                        answer_format = OptionsFormat [''a'', ''b'', ''c''] False\<rparr>,
                     GET_confirmation ''https://api.waithuman.com'' ''key'' (Some ''id1'') False]\<rparr>) \<and>
   askMultipleChoice 1 demo_client (demo_env\<lparr>poll_result := (\<lambda>i. answered (Options []))\<rparr>)
       ''Send invoice?'' [''a'', ''b'', ''c''] None None idle =
     Some (Inl (Error ''Invalid selected index received: undefined''),
           \<lparr>now = 6, polls = 1,
            trace = [POST_create ''https://api.waithuman.com'' ''key''
                       \<lparr>method = Push, subject = ''Send invoice?'', body = None,
                        answer_format = OptionsFormat [''a'', ''b'', ''c''] False\<rparr>,
                     GET_confirmation ''https://api.waithuman.com'' ''key'' (Some ''id1'') False]\<rparr>) \<and>
   askMultipleChoice 1 demo_client (demo_env\<lparr>poll_result := (\<lambda>i. answered (Options [- 1, 0]))\<rparr>)
       ''Send invoice?'' [''a'', ''b'', ''c''] None None idle =
     Some (Inl (Error ''Invalid selected index received: -1''),
           \<lparr>now = 6, polls = 1,
            trace = [POST_create ''https://api.waithuman.com'' ''key''
                       \<lparr>method = Push, subject = ''Send invoice?'', body = None,
                        answer_format = OptionsFormat [''a'', ''b'', ''c''] False\<rparr>,
                     GET_confirmation ''https://api.waithuman.com'' ''key'' (Some ''id1'') False]\<rparr>)"
proof -
  let ?q = "\<lparr>method = Push, subject = ''Send invoice?'', body = None,
      answer_format = OptionsFormat [''a'', ''b'', ''c''] False\<rparr>"
  let ?fin = "\<lparr>now = 6, polls = 1,
      trace = [POST_create ''https://api.waithuman.com'' ''key'' ?q,
               GET_confirmation ''https://api.waithuman.com'' ''key'' (Some ''id1'') False]\<rparr>"
  have h: "ask 1 demo_client (demo_env\<lparr>poll_result := (\<lambda>i. answered (Options idxs))\<rparr>) ?q None idle =
        Some (Inr \<lparr>answer = \<lparr>answer_content = Options idxs\<rparr>\<rparr>, ?fin) \<and>
      answer_content (answer \<lparr>answer = \<lparr>answer_content = Options idxs\<rparr>\<rparr>) = Options idxs \<and>
      (idxs = [] \<or> (\<exists>i others. idxs = i # others \<and> (i < 0 \<or> int (length [''a'', ''b'', ''c'']) \<le> i)))"
    if "idxs = [] \<or> (\<exists>i others. idxs = i # others \<and> (i < 0 \<or> 3 \<le> i))" for idxs
    using that demo_answer_run [of "Options idxs" ?q] by simp
  have "[5] = [] \<or> (\<exists>i others. [5::int] = i # others \<and> (i < 0 \<or> 3 \<le> i))"
    by simp
  from askMultipleChoice_invalid_index [rule_format, OF h [OF this]]
  have r1: "askMultipleChoice 1 demo_client (demo_env\<lparr>poll_result := (\<lambda>i. answered (Options [5]))\<rparr>)
       ''Send invoice?'' [''a'', ''b'', ''c''] None None idle =
     Some (Inl (Error ''Invalid selected index received: 5''), ?fin)"
    by (simp add: demo_env_def decimal_text_samples)
  have "[] = [] \<or> (\<exists>i others. ([]::int list) = i # others \<and> (i < 0 \<or> 3 \<le> i))"
    by simp
  from askMultipleChoice_invalid_index [rule_format, OF h [OF this]]
  have r2: "askMultipleChoice 1 demo_client (demo_env\<lparr>poll_result := (\<lambda>i. answered (Options []))\<rparr>)
       ''Send invoice?'' [''a'', ''b'', ''c''] None None idle =
     Some (Inl (Error ''Invalid selected index received: undefined''), ?fin)"
    by simp
  have "[- 1, 0] = [] \<or> (\<exists>i others. [- 1, 0::int] = i # others \<and> (i < 0 \<or> 3 \<le> i))"
    by simp
  from askMultipleChoice_invalid_index [rule_format, OF h [OF this]]
  have r3: "askMultipleChoice 1 demo_client (demo_env\<lparr>poll_result := (\<lambda>i. answered (Options [- 1, 0]))\<rparr>)
       ''Send invoice?'' [''a'', ''b'', ''c''] None None idle =
     Some (Inl (Error ''Invalid selected index received: -1''), ?fin)"
    by (simp add: demo_env_def decimal_text_samples)
  from r1 r2 r3 show ?thesis
    by (intro conjI)
qed

text \<open>
  C7. With the question \<open>{ method: push, subject, body, answer_format: free_text }\<close>:
  when the engine returns an error, \<open>askFreeText\<close> raises \<open>WaitHuman Error: \<close> followed by
  the reason, a space and the description (nothing when there is none); when the engine
  succeeds with content of type \<open>free_text\<close> it returns the text, and it returns a text
  only then; when the engine succeeds with content of type \<open>options\<close> it raises
  \<open>Unexpected answer type: options. Expected 'free_text'.\<close>, whatever the content holds.
\<close>

theorem askFreeText_spec:
  "(ask fuel this e
        \<lparr>method = Push, subject = subj, body = bdy, answer_format = FreeTextFormat\<rparr>
        opts s = Some (Inl err, s') \<longrightarrow>
      askFreeText fuel this e subj bdy opts s =
        Some (Inl (Error (''WaitHuman Error: '' @ reason_text (reason err) @ '' '' @
                          (case description err of None \<Rightarrow> [] | Some d \<Rightarrow> d))), s')) \<and>
   (ask fuel this e
        \<lparr>method = Push, subject = subj, body = bdy, answer_format = FreeTextFormat\<rparr>
        opts s = Some (Inr a, s') \<and>
    answer_content (answer a) = FreeText t \<longrightarrow>
      askFreeText fuel this e subj bdy opts s = Some (Inr t, s')) \<and>
   (ask fuel this e
        \<lparr>method = Push, subject = subj, body = bdy, answer_format = FreeTextFormat\<rparr>
        opts s = Some (Inr a, s') \<and>
    answer_content (answer a) = Options idxs \<longrightarrow>
      askFreeText fuel this e subj bdy opts s =
        Some (Inl (Error (''Unexpected answer type: options. Expected '' @ [CHR 0x27] @
                          ''free_text'' @ [CHR 0x27] @ ''.'')), s')) \<and>
   (askFreeText fuel this e subj bdy opts s = Some (Inr t, s') \<longrightarrow>
      (\<exists>a. ask fuel this e
              \<lparr>method = Push, subject = subj, body = bdy, answer_format = FreeTextFormat\<rparr>
              opts s = Some (Inr a, s') \<and>
           answer_content (answer a) = FreeText t))"
  by (auto simp: askFreeText_def engine_error_message_def Let_def
      split: option.splits sum.splits AnswerContent.splits)

theorem askFreeText_spec_witness:
  "askFreeText 1 demo_client demo_env ''Why?'' (Some ''Explain'') (Some \<lparr>timeoutSeconds = Some (Finite (- 1))\<rparr>) idle =
     Some (Inl (Error ''WaitHuman Error: timeout elapsed seconds: 0.001''),
           \<lparr>now = 6, polls = 0,
            trace = [POST_create ''https://api.waithuman.com'' ''key''
                       \<lparr>method = Push, subject = ''Why?'', body = Some ''Explain'',
                        answer_format = FreeTextFormat\<rparr>]\<rparr>) \<and>
   askFreeText 1 demo_client (demo_env\<lparr>poll_result := (\<lambda>i. answered (FreeText ''too dear''))\<rparr>)
       ''Why?'' (Some ''Explain'') None idle =
     Some (Inr ''too dear'',
           \<lparr>now = 6, polls = 1,
            trace = [POST_create ''https://api.waithuman.com'' ''key''
                       \<lparr>method = Push, subject = ''Why?'', body = Some ''Explain'',
                        answer_format = FreeTextFormat\<rparr>,
                     GET_confirmation ''https://api.waithuman.com'' ''key'' (Some ''id1'') False]\<rparr>) \<and>
   askFreeText 1 demo_client (demo_env\<lparr>poll_result := (\<lambda>i. answered (Options [0]))\<rparr>)
       ''Why?'' (Some ''Explain'') None idle =
     Some (Inl (Error (''Unexpected answer type: options. Expected '' @ [CHR 0x27] @
                       ''free_text'' @ [CHR 0x27] @ ''.'')),
           \<lparr>now = 6, polls = 1,
            trace = [POST_create ''https://api.waithuman.com'' ''key''
                       \<lparr>method = Push, subject = ''Why?'', body = Some ''Explain'',
                        answer_format = FreeTextFormat\<rparr>,
                     GET_confirmation ''https://api.waithuman.com'' ''key'' (Some ''id1'') False]\<rparr>) \<and>
   (\<exists>a. ask 1 demo_client (demo_env\<lparr>poll_result := (\<lambda>i. answered (FreeText ''too dear''))\<rparr>)
           \<lparr>method = Push, subject = ''Why?'', body = Some ''Explain'', answer_format = FreeTextFormat\<rparr>
           None idle =
         Some (Inr a,
               \<lparr>now = 6, polls = 1,
                trace = [POST_create ''https://api.waithuman.com'' ''key''
                           \<lparr>method = Push, subject = ''Why?'', body = Some ''Explain'',
                            answer_format = FreeTextFormat\<rparr>,
                         GET_confirmation ''https://api.waithuman.com'' ''key'' (Some ''id1'') False]\<rparr>) \<and>
         answer_content (answer a) = FreeText ''too dear'')"
proof -
  let ?q = "\<lparr>method = Push, subject = ''Why?'', body = Some ''Explain'',
      answer_format = FreeTextFormat\<rparr>"
  let ?s1 = "\<lparr>now = 6, polls = 0, trace = [POST_create ''https://api.waithuman.com'' ''key'' ?q]\<rparr>"
  let ?fin = "\<lparr>now = 6, polls = 1,
      trace = [POST_create ''https://api.waithuman.com'' ''key'' ?q,
               GET_confirmation ''https://api.waithuman.com'' ''key'' (Some ''id1'') False]\<rparr>"
  let ?e2 = "demo_env\<lparr>poll_result := (\<lambda>i. answered (FreeText ''too dear''))\<rparr>"
  let ?e3 = "demo_env\<lparr>poll_result := (\<lambda>i. answered (Options [0]))\<rparr>"
  let ?err = "\<lparr>reason = Timeout, description = Some ''elapsed seconds: 0.001''\<rparr>"
  note t = askFreeText_spec [where fuel = 1 and this = demo_client and subj = "''Why?''"
      and bdy = "Some ''Explain''" and s = idle]
  have h1: "ask 1 demo_client demo_env ?q (Some \<lparr>timeoutSeconds = Some (Finite (- 1))\<rparr>) idle =
      Some (Inl ?err, ?s1)"
    by (simp add: engine_defs demo_defs decimal_text_samples)
  from t [THEN conjunct1, rule_format, OF h1]
  have r1: "askFreeText 1 demo_client demo_env ''Why?'' (Some ''Explain'')
        (Some \<lparr>timeoutSeconds = Some (Finite (- 1))\<rparr>) idle =
      Some (Inl (Error ''WaitHuman Error: timeout elapsed seconds: 0.001''), ?s1)"
    by simp
  have h2: "ask 1 demo_client ?e2 ?q None idle =
        Some (Inr \<lparr>answer = \<lparr>answer_content = FreeText ''too dear''\<rparr>\<rparr>, ?fin) \<and>
      answer_content (answer \<lparr>answer = \<lparr>answer_content = FreeText ''too dear''\<rparr>\<rparr>) = FreeText ''too dear''"
    using demo_answer_run [of "FreeText ''too dear''" ?q] by simp
  from t [THEN conjunct2, THEN conjunct1, rule_format, OF h2]
  have r2: "askFreeText 1 demo_client ?e2 ''Why?'' (Some ''Explain'') None idle =
      Some (Inr ''too dear'', ?fin)" .
  have h3: "ask 1 demo_client ?e3 ?q None idle =
        Some (Inr \<lparr>answer = \<lparr>answer_content = Options [0]\<rparr>\<rparr>, ?fin) \<and>
      answer_content (answer \<lparr>answer = \<lparr>answer_content = Options [0]\<rparr>\<rparr>) = Options [0]"
    using demo_answer_run [of "Options [0]" ?q] by simp
  from t [THEN conjunct2, THEN conjunct2, THEN conjunct1, rule_format, OF h3]
  have r3: "askFreeText 1 demo_client ?e3 ''Why?'' (Some ''Explain'') None idle =
      Some (Inl (Error (''Unexpected answer type: options. Expected '' @ [CHR 0x27] @
                        ''free_text'' @ [CHR 0x27] @ ''.'')), ?fin)" .
  from t [THEN conjunct2, THEN conjunct2, THEN conjunct2, rule_format, OF r2]
  have r4: "\<exists>a. ask 1 demo_client ?e2 ?q None idle = Some (Inr a, ?fin) \<and>
      answer_content (answer a) = FreeText ''too dear''" .
  from r1 r2 r3 r4 show ?thesis
    by (intro conjI)
qed

end
